theory Spec2Isabelle
  imports Complex_Main
begin

section \<open>Data model\<close>

text \<open>
  \<open>value_type\<close> (a C++ double) is modelled by \<^typ>\<open>real\<close>: rounding is not
  represented, so an equation below is one between the expressions the code evaluates,
  not between their rounded values. \<open>size_type\<close> (a signed index) is \<^typ>\<open>int\<close>.
  Tangent vectors (\<open>vector_t\<close>) are the elements of an arbitrary real vector space \<open>'v\<close>,
  configurations (\<open>Configuration_t\<close>) the elements of an arbitrary type \<open>'q\<close>.
\<close>

type_synonym interval = "real \<times> real"

datatype error =
    Invalid_argument string
  | Logic_error string
  | Runtime_error string
  | Projection_error
  | Null_dereference
  | Out_of_range

subsection \<open>Doubles with their special values\<close>

text \<open>
  Two doubles of the projector are compared where they may be infinite or not a number:
  \<open>beta\<close>, which comes from a problem parameter and is checked by the constructor, and
  the acceptance threshold, a quotient by the scale constant \<open>M\<close>. They are a \<open>double\<close>:
  a real number, an infinity or NaN. \<open>less_d a b\<close> is the C++ comparison \<open>a < b\<close>, false
  whenever an operand is NaN; \<open>mult_d\<close> and \<open>div_d\<close> are the product of a double with a
  number and the quotient of two numbers (a zero divisor is taken as \<open>+0\<close>). The
  scale constant and the Hermite lengths themselves are taken to be numbers.
\<close>

datatype double = Num real | PInf | MInf | NaN

fun less_d :: "double \<Rightarrow> double \<Rightarrow> bool" where
  "less_d (Num a) (Num b) = (a < b)"
| "less_d (Num a) PInf = True"
| "less_d (Num a) MInf = False"
| "less_d MInf (Num b) = True"
| "less_d MInf PInf = True"
| "less_d MInf MInf = False"
| "less_d PInf (Num b) = False"
| "less_d PInf PInf = False"
| "less_d PInf MInf = False"
| "less_d NaN b = False"
| "less_d (Num a) NaN = False"
| "less_d PInf NaN = False"
| "less_d MInf NaN = False"

fun mult_d :: "double \<Rightarrow> real \<Rightarrow> double" where
  "mult_d (Num b) x = Num (b * x)"
| "mult_d PInf x = (if 0 < x then PInf else if x < 0 then MInf else NaN)"
| "mult_d MInf x = (if 0 < x then MInf else if x < 0 then PInf else NaN)"
| "mult_d NaN x = NaN"

definition div_d :: "real \<Rightarrow> real \<Rightarrow> double" where
  "div_d x y =
     (if y \<noteq> 0 then Num (x / y)
      else if 0 < x then PInf else if x < 0 then MInf else NaN)"

text \<open>The spec's range of \<open>beta\<close>: a number of the interval \<open>[0.5, 1]\<close>.\<close>

fun in_beta_range :: "double \<Rightarrow> bool" where
  "in_beta_range (Num b) = (1 / 2 \<le> b \<and> b \<le> 1)"
| "in_beta_range PInf = False"
| "in_beta_range MInf = False"
| "in_beta_range NaN = False"

subsection \<open>Time parameterizations (path.cc, lines 48--90)\<close>

text \<open>
  \<open>TimeParameterization\<close> is an abstract class; the only subclass defined in the sources is
  \<open>timeParameterization::Shift\<close>. Every other subclass is a \<open>Prim\<close>, given by its virtual
  methods \<open>value\<close> and \<open>derivative\<close>. \<open>Shift tp t s\<close> is the object with fields
  \<open>tp_ = tp\<close>, \<open>t_ = t\<close>, \<open>s_ = s\<close>.
\<close>

datatype tparam =
    Prim "real \<Rightarrow> real" "real \<Rightarrow> int \<Rightarrow> real"
  | Shift tparam real real

fun tp_value :: "tparam \<Rightarrow> real \<Rightarrow> real" where
  "tp_value (Prim f d) t = f t"
| "tp_value (Shift tp t0 s0) t = tp_value tp (t + t0) + s0"

fun tp_derivative :: "tparam \<Rightarrow> real \<Rightarrow> int \<Rightarrow> real" where
  "tp_derivative (Prim f d) t order = d t order"
| "tp_derivative (Shift tp t0 s0) t order = tp_derivative tp (t + t0) order"

text \<open>\<open>Shift::create\<close>: the dynamic cast succeeds exactly on a \<open>Shift\<close>.\<close>

fun create :: "tparam \<Rightarrow> real \<Rightarrow> real \<Rightarrow> tparam" where
  "create (Shift tp0 t0 s0) t s = Shift tp0 (t0 + t) (s0 + s)"
| "create (Prim f d) t s = Shift (Prim f d) t s"

definition createWithCheck :: "tparam \<Rightarrow> real \<Rightarrow> real \<Rightarrow> tparam" where
  "createWithCheck tp t s = (if t = 0 \<and> s = 0 then tp else create tp t s)"

text \<open>\<open>copy\<close> is a deep copy: a \<open>Shift\<close> rebuilds itself through \<open>create\<close>.\<close>

fun tp_copy :: "tparam \<Rightarrow> tparam" where
  "tp_copy (Prim f d) = Prim f d"
| "tp_copy (Shift tp t0 s0) = create (tp_copy tp) t0 s0"

fun is_Shift :: "tparam \<Rightarrow> bool" where
  "is_Shift (Shift tp t0 s0) = True"
| "is_Shift (Prim f d) = False"

text \<open>A parameterization is canonical when no \<open>Shift\<close> wraps a \<open>Shift\<close>.\<close>

fun canonical :: "tparam \<Rightarrow> bool" where
  "canonical (Prim f d) = True"
| "canonical (Shift tp t0 s0) = (\<not> is_Shift tp \<and> canonical tp)"

subsection \<open>Constraints (config-projector.hh)\<close>

record configProjector =
  dimension :: int
  errorThreshold :: real

record 'q constraintSet =
  isSatisfied :: "'q \<Rightarrow> bool"
  configProjector :: "configProjector option"

subsection \<open>Paths (path.cc, lines 92--140)\<close>

text \<open>
  The fields of \<open>Path\<close>; the pure virtual \<open>impl_derivative\<close> of the dynamic type is a
  function-valued field. A null \<open>constraints_\<close> or \<open>timeParam_\<close> pointer is \<open>None\<close>.
\<close>

record ('q, 'v) path =
  paramRange :: interval
  timeRange :: interval
  outputSize :: int
  outputDerivativeSize :: int
  constraints :: "'q constraintSet option"
  timeParam :: "tparam option"
  impl_derivative :: "real \<Rightarrow> int \<Rightarrow> 'v"

text \<open>
  Modelled from the spec: \<open>Path::timeRange(interval)\<close>, \<open>Path::timeParameterization(tp,
  interval)\<close> and \<open>Path::length\<close> are declared in path.hh, which is not among the sources.
  The spec's invariant is that \<open>paramRange\<close> is always the image of \<open>timeRange\<close> under the
  time parameterization (the identity if absent); the length is that of the time range.
\<close>

definition set_timeRange :: "('q, 'v, 'z) path_scheme \<Rightarrow> interval \<Rightarrow> ('q, 'v, 'z) path_scheme" where
  "set_timeRange p tr =
     (case timeParam p of
        Some tp \<Rightarrow> p\<lparr>timeRange := tr, paramRange := (tp_value tp (fst tr), tp_value tp (snd tr))\<rparr>
      | None \<Rightarrow> p\<lparr>timeRange := tr, paramRange := tr\<rparr>)"

definition set_timeParameterization ::
  "('q, 'v, 'z) path_scheme \<Rightarrow> tparam \<Rightarrow> interval \<Rightarrow> ('q, 'v, 'z) path_scheme" where
  "set_timeParameterization p tp tr = set_timeRange (p\<lparr>timeParam := Some tp\<rparr>) tr"

definition length_path :: "('q, 'v, 'z) path_scheme \<Rightarrow> real" where
  "length_path p = snd (timeRange p) - fst (timeRange p)"

subsection \<open>\<open>Path::derivative\<close> (path.cc, lines 153--178)\<close>

definition derivative ::
  "('q, 'v::real_vector, 'z) path_scheme \<Rightarrow> real \<Rightarrow> int \<Rightarrow> error + 'v" where
  "derivative p time order =
     (case timeParam p of
        Some tp \<Rightarrow>
          (if order = 1 then
             Inr (tp_derivative tp time 1 *\<^sub>R impl_derivative p (tp_value tp time) 1)
           else if order = 2 then
             (let tmp = impl_derivative p (tp_value tp time) 2;
                  der = tp_derivative tp time 1;
                  result = (der * der) *\<^sub>R tmp;
                  tmp' = impl_derivative p (tp_value tp time) 1
              in Inr (result + tp_derivative tp time 2 *\<^sub>R tmp'))
           else Inl (Invalid_argument ''Cannot compute the derivative of order greater than 2.''))
      | None \<Rightarrow> Inr (impl_derivative p time order))"

subsection \<open>\<open>Path::extract\<close> (path.cc, lines 180--226)\<close>

text \<open>
  \<open>impl_extract\<close> is virtual (the source's own comment notes that a child class may return
  a path whose \<open>paramRange\<close> has been shifted to 0), so the implementation of the dynamic
  type is a parameter. \<open>extract_shift\<close> is the computation of \<open>shift_t\<close>, \<open>shift_s\<close> and
  \<open>timeInterval\<close> of lines 189--215, from the sub-interval, the parameter interval and the
  \<open>paramRange\<close> of the path returned by \<open>impl_extract\<close>.
\<close>

definition extract_shift :: "interval \<Rightarrow> interval \<Rightarrow> interval \<Rightarrow> real \<times> real \<times> interval" where
  "extract_shift subInterval paramInterval resRange =
     (if fst subInterval > snd subInterval then
        (let shift_s = fst resRange - snd paramInterval
         in if shift_s \<noteq> 0
            then (snd subInterval, shift_s, (0, fst subInterval - snd subInterval))
            else (0, shift_s, (snd subInterval, fst subInterval)))
      else
        (let shift_s = fst resRange - fst paramInterval
         in if shift_s \<noteq> 0
            then (fst subInterval, shift_s, (0, snd subInterval - fst subInterval))
            else (0, shift_s, subInterval)))"

text \<open>
  Line 216 calls \<open>Shift::createWithCheck\<close> and drops the returned object; line 220 attaches
  \<open>timeParam_->copy()\<close>. Both are kept as written: the shift is bound and not used.
\<close>

definition extract_path ::
  "(('q, 'v) path \<Rightarrow> interval \<Rightarrow> ('q, 'v) path) \<Rightarrow> ('q, 'v) path \<Rightarrow> interval \<Rightarrow> ('q, 'v) path" where
  "extract_path impl_extract p subInterval =
     (case timeParam p of
        Some tp \<Rightarrow>
          (let paramInterval = (tp_value tp (fst subInterval), tp_value tp (snd subInterval));
               res = impl_extract p paramInterval;
               (shift_t, shift_s, timeInterval) =
                  extract_shift subInterval paramInterval (paramRange res);
               dropped = createWithCheck tp shift_t shift_s
           in set_timeParameterization res (tp_copy tp) timeInterval)
      | None \<Rightarrow> impl_extract p subInterval)"

text \<open>
  The extraction the comment of lines 186--188 asks for, in the spec's words: the same
  computation, with the shift of the original parameterization attached to the result
  instead of dropped. It is not in the sources; it is kept for comparison with
  \<open>extract_path\<close>.
\<close>

definition extract_shifted ::
  "(('q, 'v) path \<Rightarrow> interval \<Rightarrow> ('q, 'v) path) \<Rightarrow> ('q, 'v) path \<Rightarrow> interval \<Rightarrow> ('q, 'v) path" where
  "extract_shifted impl_extract p subInterval =
     (case timeParam p of
        Some tp \<Rightarrow>
          (let paramInterval = (tp_value tp (fst subInterval), tp_value tp (snd subInterval));
               res = impl_extract p paramInterval;
               (shift_t, shift_s, timeInterval) =
                  extract_shift subInterval paramInterval (paramRange res)
           in set_timeParameterization res
                (tp_copy (createWithCheck tp shift_t shift_s)) timeInterval)
      | None \<Rightarrow> impl_extract p subInterval)"

subsection \<open>\<open>Path::serialize\<close> (path.cc, lines 286--302)\<close>

text \<open>
  \<open>is_saving\<close> is the archive's direction. The archive operations themselves are not
  modelled: saving leaves the path as it is, loading re-derives \<open>paramRange\<close> through
  \<open>timeRange(timeRange_)\<close>.
\<close>

definition serialize ::
  "bool \<Rightarrow> ('q, 'v, 'z) path_scheme \<Rightarrow> error + ('q, 'v, 'z) path_scheme" where
  "serialize is_saving p =
     (if is_saving \<and> timeParam p \<noteq> None then
        Inl (Logic_error
          ''At the moment, it is not possible to serialize a Path with time parameterization.'')
      else if \<not> is_saving then Inr (set_timeRange p (timeRange p))
      else Inr p)"

section \<open>Hermite paths (hermite.hh)\<close>

text \<open>
  \<open>parameters\<close> holds the four rows of the control-point matrix \<open>parameters_\<close> of the
  cubic Bernstein spline; the row index is always one of the constants 0 to 3.
\<close>

record ('q, 'v) hermite = "('q, 'v) path" +
  parameters :: "nat \<Rightarrow> 'v"
  init_q :: 'q
  end_q :: 'q
  hermiteLength :: real

text \<open>The setters \<open>v0(speed)\<close> and \<open>v1(speed)\<close> of lines 122--130.\<close>

definition set_v0 :: "('q, 'v::real_vector) hermite \<Rightarrow> 'v \<Rightarrow> ('q, 'v) hermite" where
  "set_v0 h speed =
     h\<lparr>parameters := (parameters h)
          (1 := (snd (timeRange h) - fst (timeRange h)) *\<^sub>R (speed /\<^sub>R 3)),
       hermiteLength := - 1\<rparr>"

definition set_v1 :: "('q, 'v::real_vector) hermite \<Rightarrow> 'v \<Rightarrow> ('q, 'v) hermite" where
  "set_v1 h speed =
     h\<lparr>parameters := (parameters h)
          (2 := parameters h 3 - (snd (timeRange h) - fst (timeRange h)) *\<^sub>R (speed /\<^sub>R 3)),
       hermiteLength := - 1\<rparr>"

text \<open>
  The getters \<open>v0()\<close> and \<open>v1()\<close> of lines 132--140. They divide by the length of the time
  range with no guard. On a time range of length zero the C++ quotient is not a finite
  number, and the total division of HOL gives 0 there: the value of the model is not the
  program's on such a path. On the other paths it is the program's up to rounding.
\<close>

definition v0 :: "('q, 'v::real_vector) hermite \<Rightarrow> 'v" where
  "v0 h = (3 *\<^sub>R (parameters h 1 - parameters h 0)) /\<^sub>R (snd (timeRange h) - fst (timeRange h))"

definition v1 :: "('q, 'v::real_vector) hermite \<Rightarrow> 'v" where
  "v1 h = (3 *\<^sub>R (parameters h 3 - parameters h 2)) /\<^sub>R (snd (timeRange h) - fst (timeRange h))"

section \<open>The recursive Hermite path projector (recursive-hermite.cc)\<close>

text \<open>
  The sources hold three listings of recursive-hermite.cc:
  \<^item> \<open>L1\<close>: recursive-hermite.cc, lines 1--272. Pieces are built by \<open>steer\<close>, the midpoint
    is \<open>t = 0.5\<close> and the velocities handed to the children are halved.
  \<^item> \<open>L2\<close>: recursive-hermite.cc, lines 273--614. Pieces are built by
    \<open>steer_with_timeRange\<close> over the two halves of the parent's time range, the
    velocities are handed over as they are, the threshold is computed with the literal 2
    in the place of \<open>M_\<close>, and \<open>impl_apply\<close> ends by \<open>proj->checkPath()\<close>.
  \<^item> \<open>L3\<close>: the listing after path.cc (lines 307--605 of that file). As \<open>L2\<close>, with
    the threshold computed with \<open>M_\<close> and without the call of \<open>checkPath\<close>.
  The functions below take the listing as their first argument and differ only where the
  listings do.
\<close>

datatype listing = L1 | L2 | L3

record recursiveHermite =
  rh_M :: real
  rh_beta :: double
  rh_interpolationTimes :: "real list"

text \<open>
  The constructors (lines 63--72; path.cc, lines 378--399). \<open>sm_is_Hermite\<close> is the
  outcome of the dynamic cast of the steering method to \<open>steeringMethod::Hermite\<close>.
  The guard is \<open>beta_ < 0.5 || 1 < beta_\<close>, two comparisons of doubles.
\<close>

definition RecursiveHermite :: "bool \<Rightarrow> real \<Rightarrow> double \<Rightarrow> error + recursiveHermite" where
  "RecursiveHermite sm_is_Hermite M beta =
     (if less_d beta (Num (1 / 2)) \<or> less_d (Num 1) beta
        then Inl (Invalid_argument ''Beta should be between 0.5 and 1'')
      else if \<not> sm_is_Hermite
        then Inl (Invalid_argument ''Steering method should be of type Hermite'')
      else Inr \<lparr>rh_M = M, rh_beta = beta, rh_interpolationTimes = []\<rparr>)"

definition RecursiveHermite_times ::
  "bool \<Rightarrow> real \<Rightarrow> double \<Rightarrow> real list \<Rightarrow> error + recursiveHermite" where
  "RecursiveHermite_times sm_is_Hermite M beta interpolationTimes =
     (if less_d beta (Num (1 / 2)) \<or> less_d (Num 1) beta
        then Inl (Invalid_argument ''Beta should be between 0.5 and 1'')
      else if \<not> sm_is_Hermite
        then Inl (Invalid_argument ''Steering method should be of type Hermite'')
      else Inr \<lparr>rh_M = M, rh_beta = beta, rh_interpolationTimes = interpolationTimes\<rparr>)"

text \<open>
  What the projector calls and the sources do not define is a parameter: the steering
  primitives followed by the dynamic cast to \<open>Hermite\<close> (\<open>None\<close> when the cast gives a null
  pointer), \<open>Path::eval\<close> with its success flag, \<open>Hermite::velocity\<close>, the length computed
  by \<open>Hermite::computeHermiteLength\<close>, and \<open>extract\<close> on the dynamic type of the input path.
\<close>

record ('q, 'v, 'p) env =
  steer :: "'q \<Rightarrow> 'q \<Rightarrow> ('q, 'v) hermite option"
  steer_with_timeRange :: "'q \<Rightarrow> 'q \<Rightarrow> interval \<Rightarrow> ('q, 'v) hermite option"
  eval :: "('q, 'v) hermite \<Rightarrow> real \<Rightarrow> 'q \<times> bool"
  velocity :: "('q, 'v) hermite \<Rightarrow> real \<Rightarrow> 'v"
  computeHermiteLength :: "('q, 'v) hermite \<Rightarrow> real"
  extract_any :: "'p \<Rightarrow> interval \<Rightarrow> 'p"

definition doComputeHermiteLength ::
  "('q, 'v, 'p) env \<Rightarrow> ('q, 'v) hermite \<Rightarrow> ('q, 'v) hermite" where
  "doComputeHermiteLength E h = h\<lparr>hermiteLength := computeHermiteLength E h\<rparr>"

subsection \<open>\<open>recurse\<close>: the bisection (lines 227--250, 566--592; path.cc, lines 557--583)\<close>

text \<open>
  \<open>Inr None\<close>: the midpoint could not be projected (\<open>recurse\<close> returns false).
  \<open>Inl\<close>: a steered piece is not a \<open>Hermite\<close> (\<open>std::runtime_error\<close>).
\<close>

definition bisect ::
  "listing \<Rightarrow> ('q, 'v::real_vector, 'p) env \<Rightarrow> ('q, 'v) hermite
     \<Rightarrow> error + (('q, 'v) hermite \<times> ('q, 'v) hermite) option" where
  "bisect l E path =
     (let t = (case l of L1 \<Rightarrow> 1 / 2 | _ \<Rightarrow> fst (timeRange path) + length_path path / 2);
          (q1, success) = eval E path t
      in if \<not> success then Inr None
         else
           let q0 = init_q path;
               q2 = end_q path;
               vHalf = (case l of L1 \<Rightarrow> velocity E path t /\<^sub>R 2 | _ \<Rightarrow> velocity E path t)
           in case (case l of L1 \<Rightarrow> steer E q0 q1
                    | _ \<Rightarrow> steer_with_timeRange E q0 q1 (fst (timeRange path), t)) of
                None \<Rightarrow> Inl (Runtime_error ''Not an path::Hermite'')
              | Some left0 \<Rightarrow>
                  let left = doComputeHermiteLength E
                        (set_v1 (set_v0 left0 (case l of L1 \<Rightarrow> v0 path /\<^sub>R 2 | _ \<Rightarrow> v0 path))
                           vHalf)
                  in (case (case l of L1 \<Rightarrow> steer E q1 q2
                            | _ \<Rightarrow> steer_with_timeRange E q1 q2 (t, snd (timeRange path))) of
                        None \<Rightarrow> Inl (Runtime_error ''Not an path::Hermite'')
                      | Some right0 \<Rightarrow>
                          let right = doComputeHermiteLength E
                                (set_v1 (set_v0 right0 vHalf)
                                   (case l of L1 \<Rightarrow> v1 path /\<^sub>R 2 | _ \<Rightarrow> v1 path))
                          in Inr (Some (left, right))))"

subsection \<open>\<open>recurse\<close> (lines 218--269, 556--611; path.cc, lines 548--602)\<close>

text \<open>
  Nothing bounds the depth of the recursion, so the model takes fuel: \<open>None\<close> is a run
  that needs more activations than the fuel allows. The state threaded through the calls
  is the pair \<open>(proj, calls)\<close>: \<open>proj\<close> is the path vector the accepted pieces are
  appended to (it keeps what was appended also when the call returns false), and \<open>calls\<close>
  is a log that is not in the program: every activation of \<open>recurse\<close> appends its piece
  to it on entry, so that it lists the pieces recursed into, in call order.
\<close>

fun recurse ::
  "listing \<Rightarrow> ('q, 'v::real_vector, 'p) env \<Rightarrow> double \<Rightarrow> nat \<Rightarrow> ('q, 'v) hermite
     \<Rightarrow> ('q, 'v) hermite list \<times> ('q, 'v) hermite list \<Rightarrow> double
     \<Rightarrow> (error + bool \<times> ('q, 'v) hermite list \<times> ('q, 'v) hermite list) option" where
  "recurse l E beta 0 path st acceptThr = None"
| "recurse l E beta (Suc n) path st acceptThr =
     (let proj = fst st; calls = snd st @ [path]
      in if less_d (Num (hermiteLength path)) acceptThr
         then Some (Inr (True, proj @ [path], calls))
         else
           case bisect l E path of
             Inl e \<Rightarrow> Some (Inl e)
           | Inr None \<Rightarrow> Some (Inr (False, proj, calls))
           | Inr (Some (left, right)) \<Rightarrow>
               let stopThr = mult_d beta (hermiteLength path);
                   lStop = less_d stopThr (Num (hermiteLength left));
                   rStop = less_d stopThr (Num (hermiteLength right));
                   stop = (rStop \<or> lStop)
               in if lStop then Some (Inr (False, proj, calls))
                  else
                    (case recurse l E beta n left (proj, calls) acceptThr of
                       None \<Rightarrow> None
                     | Some (Inl e) \<Rightarrow> Some (Inl e)
                     | Some (Inr (okL, stL)) \<Rightarrow>
                         if \<not> okL then Some (Inr (False, stL))
                         else if stop then Some (Inr (False, stL))
                         else
                           (case recurse l E beta n right stL acceptThr of
                              None \<Rightarrow> None
                            | Some (Inl e) \<Rightarrow> Some (Inl e)
                            | Some (Inr (okR, stR)) \<Rightarrow>
                                if \<not> okR then Some (Inr (False, stR))
                                else Some (Inr (True, stR)))))"

subsection \<open>The dynamic type of a path\<close>

text \<open>
  \<open>impl_apply\<close> and \<open>project\<close> branch on the dynamic type of the path: a \<open>Hermite\<close>, an
  \<open>InterpolatedPath\<close> (with its initial and end configurations and the interpolation
  points in the order of their keys), a \<open>PathVector\<close> (its pieces), or any other class
  (with its initial and end configurations).
\<close>

datatype ('q, 'v) any_path =
    Hermite "('q, 'v) hermite"
  | InterpolatedPath "('q, 'v) path" 'q 'q "(real \<times> 'q) list"
  | PathVector "('q, 'v) any_path list"
  | OtherPath "('q, 'v) path" 'q 'q

text \<open>
  Modelled from the spec: path-vector.hh is not among the sources. A path sequence's own
  initial and end configurations are the first piece's initial and the last piece's end
  (none on an empty sequence, where the C++ reads the front of an empty vector); it
  carries no constraints; its time range starts at 0 and has the sum of the lengths of
  its pieces as length.
\<close>

fun constraints_of :: "('q, 'v) any_path \<Rightarrow> 'q constraintSet option" where
  "constraints_of (Hermite h) = constraints h"
| "constraints_of (InterpolatedPath p a b ips) = constraints p"
| "constraints_of (PathVector ps) = None"
| "constraints_of (OtherPath p a b) = constraints p"

fun initial :: "('q, 'v) any_path \<Rightarrow> 'q option" where
  "initial (Hermite h) = Some (init_q h)"
| "initial (InterpolatedPath p a b ips) = Some a"
| "initial (PathVector []) = None"
| "initial (PathVector (p # ps)) = initial p"
| "initial (OtherPath p a b) = Some a"

fun final :: "('q, 'v) any_path \<Rightarrow> 'q option" where
  "final (Hermite h) = Some (end_q h)"
| "final (InterpolatedPath p a b ips) = Some b"
| "final (PathVector []) = None"
| "final (PathVector (p # ps)) = (if ps = [] then final p else final (PathVector ps))"
| "final (OtherPath p a b) = Some b"

fun length_any :: "('q, 'v) any_path \<Rightarrow> real" where
  "length_any (Hermite h) = length_path h"
| "length_any (InterpolatedPath p a b ips) = length_path p"
| "length_any (PathVector ps) = sum_list (map length_any ps)"
| "length_any (OtherPath p a b) = length_path p"

fun timeRange_of :: "('q, 'v) any_path \<Rightarrow> interval" where
  "timeRange_of (Hermite h) = timeRange h"
| "timeRange_of (InterpolatedPath p a b ips) = timeRange p"
| "timeRange_of (PathVector ps) = (0, length_any (PathVector ps))"
| "timeRange_of (OtherPath p a b) = timeRange p"

subsection \<open>\<open>Path::checkPath\<close> (path.cc, lines 240--275)\<close>

text \<open>
  The right-hand side of the projector is part of the state of the constraint set;
  \<open>isSatisfied\<close> is the predicate at the right-hand side in force, and the calls of
  \<open>rightHandSideAt\<close> are not modelled.
\<close>

definition checkPath :: "('q, 'v) any_path \<Rightarrow> error + unit" where
  "checkPath p =
     (case constraints_of p of
        None \<Rightarrow> Inr ()
      | Some cs \<Rightarrow>
          (case initial p of
             None \<Rightarrow> Inl Null_dereference
           | Some qi \<Rightarrow>
               if \<not> isSatisfied cs qi then Inl Projection_error
               else
                 (case final p of
                    None \<Rightarrow> Inl Null_dereference
                  | Some qe \<Rightarrow> if \<not> isSatisfied cs qe then Inl Projection_error else Inr ())))"

subsection \<open>\<open>project\<close> (lines 112--216, 422--552; path.cc, lines 444--546)\<close>

text \<open>
  The acceptance threshold \<open>thr\<close>: line 130 (and path.cc, line 463), line 444. With
  \<open>M_ = 0\<close> the quotient of lines 130 and 463 is infinite (or NaN when the error
  threshold is 0 too).
\<close>

definition project_thr :: "listing \<Rightarrow> recursiveHermite \<Rightarrow> configProjector \<Rightarrow> double" where
  "project_thr l rh cp =
     (case l of
        L2 \<Rightarrow> div_d (2 * errorThreshold cp) 2
      | _ \<Rightarrow> div_d (2 * errorThreshold cp) (rh_M rh))"

text \<open>
  The candidate pieces \<open>ps\<close> (lines 132--157): the input itself when it is a \<open>Hermite\<close>,
  one steered piece per pair of consecutive interpolation points of an
  \<open>InterpolatedPath\<close>, one steered piece from the initial to the end configuration
  otherwise. A steered path that is not a \<open>Hermite\<close> is stored as a null pointer
  (\<open>None\<close>). In \<open>L2\<close> and \<open>L3\<close> the time range of piece \<open>iter\<close> is read from
  \<open>interpolationTimes_\<close> at \<open>iter\<close> and \<open>iter + 1\<close>, without a bound check.
\<close>

fun steer_points ::
  "listing \<Rightarrow> ('q, 'v, 'p) env \<Rightarrow> real list \<Rightarrow> nat \<Rightarrow> (real \<times> 'q) list
     \<Rightarrow> error + ('q, 'v) hermite option list" where
  "steer_points l E ts iter (a # b # rest) =
     (case l of
        L1 \<Rightarrow>
          (case steer_points l E ts (Suc iter) (b # rest) of
             Inl e \<Rightarrow> Inl e
           | Inr ps \<Rightarrow> Inr (steer E (snd a) (snd b) # ps))
      | _ \<Rightarrow>
          if Suc iter < length ts then
            (case steer_points l E ts (Suc iter) (b # rest) of
               Inl e \<Rightarrow> Inl e
             | Inr ps \<Rightarrow>
                 Inr (steer_with_timeRange E (snd a) (snd b) (ts ! iter, ts ! Suc iter) # ps))
          else Inl Out_of_range)"
| "steer_points l E ts iter [a] = Inr []"
| "steer_points l E ts iter [] = Inl Out_of_range"

definition hermite_pieces ::
  "listing \<Rightarrow> ('q, 'v, 'p) env \<Rightarrow> recursiveHermite \<Rightarrow> ('q, 'v) any_path
     \<Rightarrow> error + ('q, 'v) hermite option list" where
  "hermite_pieces l E rh path =
     (case path of
        Hermite p \<Rightarrow> Inr [Some p]
      | InterpolatedPath ip a b ips \<Rightarrow> steer_points l E (rh_interpolationTimes rh) 0 ips
      | PathVector pv \<Rightarrow>
          (case (initial path, final path) of
             (Some a, Some b) \<Rightarrow> Inr [steer E a b]
           | _ \<Rightarrow> Inl Null_dereference)
      | OtherPath op a b \<Rightarrow> Inr [steer E a b])"

text \<open>
  The loop of lines 163--178 over the candidate pieces, with \<open>res\<close> as accumulator. The
  pieces \<open>recurse\<close> appended to \<open>r\<close> are concatenated to \<open>res\<close> also when it failed.
\<close>

fun project_loop ::
  "listing \<Rightarrow> ('q, 'v::real_vector, 'p) env \<Rightarrow> double \<Rightarrow> nat \<Rightarrow> double
     \<Rightarrow> ('q, 'v) hermite option list \<Rightarrow> ('q, 'v) hermite list
     \<Rightarrow> (error + bool \<times> ('q, 'v) hermite list) option" where
  "project_loop l E beta fuel thr [] res = Some (Inr (True, res))"
| "project_loop l E beta fuel thr (None # ps) res = Some (Inl Null_dereference)"
| "project_loop l E beta fuel thr (Some p0 # ps) res =
     (let p = doComputeHermiteLength E p0
      in if less_d (Num (hermiteLength p)) thr
         then project_loop l E beta fuel thr ps (res @ [p])
         else
           (case recurse l E beta fuel p ([], []) thr of
              None \<Rightarrow> None
            | Some (Inl e) \<Rightarrow> Some (Inl e)
            | Some (Inr (success, r, calls)) \<Rightarrow>
                if \<not> success then Some (Inr (False, res @ r))
                else project_loop l E beta fuel thr ps (res @ r)))"

text \<open>
  The end of \<open>project\<close> (lines 198--214): the result written to \<open>proj\<close> from the outcome
  of the loop. On failure it is the best-effort prefix: the extraction of the degenerate
  interval at the start time when no piece was produced, the piece itself when there is
  one, the path vector otherwise.
\<close>

definition project_finish ::
  "('q, 'v, ('q, 'v) any_path) env \<Rightarrow> ('q, 'v) any_path
     \<Rightarrow> (error + bool \<times> ('q, 'v) hermite list) option
     \<Rightarrow> (error + bool \<times> ('q, 'v) any_path option) option" where
  "project_finish E path r =
     (case r of
        None \<Rightarrow> None
      | Some (Inl e) \<Rightarrow> Some (Inl e)
      | Some (Inr (success, res)) \<Rightarrow>
          if success then Some (Inr (True, Some (PathVector (map Hermite res))))
          else
            (let tmin = fst (timeRange_of path)
             in case res of
                  [] \<Rightarrow> Some (Inr (False, Some (extract_any E path (tmin, tmin))))
                | [p] \<Rightarrow> Some (Inr (False, Some (Hermite p)))
                | _ \<Rightarrow> Some (Inr (False, Some (PathVector (map Hermite res))))))"

text \<open>
  \<open>proj\<close> is the reference parameter the result is written to: \<open>None\<close> is a null pointer.
  The early return of line 121 leaves it as the caller passed it. The call of the path
  validation in \<open>L2\<close> (lines 508--514) only prints and is left out.
\<close>

definition project ::
  "listing \<Rightarrow> ('q, 'v::real_vector, ('q, 'v) any_path) env \<Rightarrow> recursiveHermite \<Rightarrow> nat
     \<Rightarrow> ('q, 'v) any_path \<Rightarrow> ('q, 'v) any_path option
     \<Rightarrow> (error + bool \<times> ('q, 'v) any_path option) option" where
  "project l E rh fuel path proj =
     (case constraints_of path of
        None \<Rightarrow> Some (Inr (True, Some path))
      | Some cs \<Rightarrow>
          (case final path of
             None \<Rightarrow> Some (Inl Null_dereference)
           | Some q2 \<Rightarrow>
               if \<not> isSatisfied cs q2 then Some (Inr (False, proj))
               else
                 (case configProjector cs of
                    None \<Rightarrow> Some (Inr (True, Some path))
                  | Some cp \<Rightarrow>
                      if dimension cp = 0 then Some (Inr (True, Some path))
                      else
                        (let thr = project_thr l rh cp
                         in case hermite_pieces l E rh path of
                              Inl e \<Rightarrow> Some (Inl e)
                            | Inr ps \<Rightarrow>
                                project_finish E path
                                  (project_loop l E (rh_beta rh) fuel thr ps [])))))"

subsection \<open>\<open>impl_apply\<close> (lines 74--110, 380--420; path.cc, lines 406--442)\<close>

text \<open>The branch of lines 79--85, for a path that is not a \<open>PathVector\<close>.\<close>

definition apply_single ::
  "listing \<Rightarrow> ('q, 'v::real_vector, ('q, 'v) any_path) env \<Rightarrow> recursiveHermite \<Rightarrow> nat
     \<Rightarrow> ('q, 'v) any_path \<Rightarrow> ('q, 'v) any_path option
     \<Rightarrow> (error + bool \<times> ('q, 'v) any_path option) option" where
  "apply_single l E rh fuel path proj =
     (case constraints_of path of
        None \<Rightarrow> Some (Inr (True, Some path))
      | Some cs \<Rightarrow>
          (case configProjector cs of
             None \<Rightarrow> Some (Inr (True, Some path))
           | Some cp \<Rightarrow> project l E rh fuel path proj))"

text \<open>
  The end of \<open>impl_apply\<close>. The three assertions of lines 106--108 are compiled out in a
  release build and are not run by the model. \<open>L2\<close> then calls \<open>proj->checkPath()\<close>
  (line 416).
\<close>

definition finish_apply ::
  "listing \<Rightarrow> (error + bool \<times> ('q, 'v) any_path option) option
     \<Rightarrow> (error + bool \<times> ('q, 'v) any_path option) option" where
  "finish_apply l r =
     (case l of
        L2 \<Rightarrow>
          (case r of
             Some (Inr (success, proj)) \<Rightarrow>
               (case proj of
                  None \<Rightarrow> Some (Inl Null_dereference)
                | Some p \<Rightarrow>
                    (case checkPath p of
                       Inl e \<Rightarrow> Some (Inl e)
                     | Inr u \<Rightarrow> Some (Inr (success, proj))))
           | _ \<Rightarrow> r)
      | _ \<Rightarrow> r)"

text \<open>
  Modelled from the spec: \<open>PathProjector::apply\<close> is defined in path-projector.cc, which
  is not among the sources; by the spec, \<open>apply\<close> on a path sequence applies recursively
  to each piece, so the call of \<open>apply\<close> in the loop of lines 91--103 is a call of
  \<open>impl_apply\<close>. \<open>apply_pieces\<close> is that loop: \<open>i\<close> is the rank, \<open>part\<close> the variable
  declared before the loop (it keeps its value from one iteration to the next), \<open>res\<close>
  the pieces appended so far.
\<close>

fun impl_apply ::
  "listing \<Rightarrow> ('q, 'v::real_vector, ('q, 'v) any_path) env \<Rightarrow> recursiveHermite \<Rightarrow> nat
     \<Rightarrow> ('q, 'v) any_path \<Rightarrow> ('q, 'v) any_path option
     \<Rightarrow> (error + bool \<times> ('q, 'v) any_path option) option"
and apply_pieces ::
  "listing \<Rightarrow> ('q, 'v::real_vector, ('q, 'v) any_path) env \<Rightarrow> recursiveHermite \<Rightarrow> nat
     \<Rightarrow> ('q, 'v) any_path list \<Rightarrow> nat \<Rightarrow> ('q, 'v) any_path option \<Rightarrow> ('q, 'v) any_path list
     \<Rightarrow> (error + bool \<times> ('q, 'v) any_path list) option" where
  "impl_apply l E rh fuel (PathVector pv) proj =
     finish_apply l
       (case apply_pieces l E rh fuel pv 0 None [] of
          None \<Rightarrow> None
        | Some (Inl e) \<Rightarrow> Some (Inl e)
        | Some (Inr (success, res)) \<Rightarrow> Some (Inr (success, Some (PathVector res))))"
| "impl_apply l E rh fuel (Hermite h) proj =
     finish_apply l (apply_single l E rh fuel (Hermite h) proj)"
| "impl_apply l E rh fuel (InterpolatedPath p a b ips) proj =
     finish_apply l (apply_single l E rh fuel (InterpolatedPath p a b ips) proj)"
| "impl_apply l E rh fuel (OtherPath p a b) proj =
     finish_apply l (apply_single l E rh fuel (OtherPath p a b) proj)"
| "apply_pieces l E rh fuel [] i part res = Some (Inr (True, res))"
| "apply_pieces l E rh fuel (p # ps) i part res =
     (case impl_apply l E rh fuel p part of
        None \<Rightarrow> None
      | Some (Inl e) \<Rightarrow> Some (Inl e)
      | Some (Inr (ok, part')) \<Rightarrow>
          if \<not> ok then
            Some (Inr (False,
              (case part' of
                 Some pt \<Rightarrow> if length_any pt > 0 \<or> i = 0 then res @ [pt] else res
               | None \<Rightarrow> res)))
          else
            (case part' of
               None \<Rightarrow> Some (Inl Null_dereference)
             | Some pt \<Rightarrow> apply_pieces l E rh fuel ps (Suc i) part' (res @ [pt])))"

section \<open>Sample inputs\<close>

text \<open>
  Concrete inputs on which the theorems below are evaluated. Configurations and tangent
  vectors are real numbers. \<open>ex_tp\<close> is the affine time parameterization
  \<open>t \<mapsto> 2 t + 5\<close>; \<open>ex_path\<close> is the curve \<open>x \<mapsto> x ^ 3\<close> under it.
\<close>

definition ex_tp :: tparam where
  "ex_tp = Prim (\<lambda>t. 2 * t + 5) (\<lambda>t order. if order = 1 then 2 else 0)"

definition ex_path :: "(real, real) path" where
  "ex_path =
     \<lparr>paramRange = (5, 9), timeRange = (0, 2), outputSize = 1, outputDerivativeSize = 1,
      constraints = None, timeParam = Some ex_tp,
      impl_derivative = (\<lambda>x order. if order = 1 then 3 * x\<^sup>2 else if order = 2 then 6 * x else 0)\<rparr>"

text \<open>
  \<open>ex_impl_extract\<close> is an \<open>impl_extract\<close> of the kind the comment of lines 186--188 of
  path.cc describes: the extracted path has its \<open>paramRange\<close> shifted to start at 0.
\<close>

definition ex_impl_extract :: "(real, real) path \<Rightarrow> interval \<Rightarrow> (real, real) path" where
  "ex_impl_extract p iv =
     p\<lparr>paramRange := (0, snd iv - fst iv), timeRange := (0, snd iv - fst iv), timeParam := None\<rparr>"

text \<open>
  A constraint set satisfied by the configurations \<open>q \<le> 1\<close>, with a projector of
  dimension 1 and error threshold 1; the Hermite path from \<open>a\<close> to \<open>b\<close> over the time
  range \<open>tr\<close> as the constructor of hermite.hh, lines 179--193, leaves it up to the
  velocities (first control point zero, last control point \<open>b - a\<close>, length unknown);
  and the same path with boundary velocities \<open>va\<close>, \<open>vb\<close> and length \<open>\<bar>b - a\<bar>\<close>.
\<close>

definition ex_cs :: "real constraintSet" where
  "ex_cs = \<lparr>isSatisfied = (\<lambda>q. q \<le> 1),
            configProjector = Some \<lparr>dimension = 1, errorThreshold = 1\<rparr>\<rparr>"

definition ex_hermite :: "interval \<Rightarrow> real \<Rightarrow> real \<Rightarrow> (real, real) hermite" where
  "ex_hermite tr a b =
     \<lparr>paramRange = tr, timeRange = tr, outputSize = 1, outputDerivativeSize = 1,
      constraints = Some ex_cs, timeParam = None, impl_derivative = (\<lambda>x order. 0),
      parameters = (\<lambda>i. 0)(3 := b - a), init_q = a, end_q = b, hermiteLength = - 1\<rparr>"

definition ex_child :: "interval \<Rightarrow> real \<Rightarrow> real \<Rightarrow> real \<Rightarrow> real \<Rightarrow> (real, real) hermite" where
  "ex_child tr a b va vb =
     (set_v1 (set_v0 (ex_hermite tr a b) va) vb)\<lparr>hermiteLength := \<bar>b - a\<bar>\<rparr>"

definition ex_parent :: "(real, real) hermite" where
  "ex_parent = ex_child (0, 1) 0 1 2 4"

text \<open>
  An environment: steering gives \<open>ex_hermite\<close> (over \<open>[0, 1]\<close> when no time range is
  given), the midpoint configuration lies at the fraction \<open>c\<close> between the ends and is
  always projected with success, the velocity is \<open>end - init\<close>, the Hermite length is the
  distance of the ends, and extraction gives a path that stays at the initial
  configuration.
\<close>

definition ex_env :: "real \<Rightarrow> (real, real, (real, real) any_path) env" where
  "ex_env c =
     \<lparr>steer = (\<lambda>a b. Some (ex_hermite (0, 1) a b)),
      steer_with_timeRange = (\<lambda>a b tr. Some (ex_hermite tr a b)),
      eval = (\<lambda>h t. (init_q h + c * (end_q h - init_q h), True)),
      velocity = (\<lambda>h t. end_q h - init_q h),
      computeHermiteLength = (\<lambda>h. \<bar>end_q h - init_q h\<bar>),
      extract_any = (\<lambda>p iv. case initial p of
                       None \<Rightarrow> p
                     | Some a \<Rightarrow>
                         OtherPath \<lparr>paramRange = iv, timeRange = iv, outputSize = 1,
                           outputDerivativeSize = 1, constraints = constraints_of p,
                           timeParam = None, impl_derivative = (\<lambda>x order. 0)\<rparr> a a)\<rparr>"

text \<open>
  The same with the midpoint in the middle, where the projection of the midpoint fails
  on every piece shorter than 1.
\<close>

definition ex_env_fail :: "(real, real, (real, real) any_path) env" where
  "ex_env_fail =
     (ex_env (1 / 2))\<lparr>eval := (\<lambda>h t. ((init_q h + end_q h) / 2, 1 \<le> \<bar>end_q h - init_q h\<bar>))\<rparr>"

text \<open>
  The environment with the midpoint at the first quarter, where steering over a time
  range shorter than \<open>1/2\<close> does not give a Hermite path.
\<close>

definition ex_env_throw :: "(real, real, (real, real) any_path) env" where
  "ex_env_throw =
     (ex_env (1 / 4))\<lparr>steer_with_timeRange :=
        (\<lambda>a b tr. if snd tr - fst tr < 1 / 2 then None else Some (ex_hermite tr a b))\<rparr>"

definition ex_rh :: recursiveHermite where
  "ex_rh = \<lparr>rh_M = 4, rh_beta = Num (1 / 2), rh_interpolationTimes = []\<rparr>"

text \<open>The four boundary velocities of the children a bisection returns, read by the getters.\<close>

definition child_velocities ::
  "error + (('q, 'v::real_vector) hermite \<times> ('q, 'v) hermite) option
     \<Rightarrow> ('v \<times> 'v \<times> 'v \<times> 'v) option" where
  "child_velocities r =
     (case r of
        Inr (Some (left, right)) \<Rightarrow> Some (v0 left, v1 left, v0 right, v1 right)
      | _ \<Rightarrow> None)"

section \<open>Time parameterizations: shifts\<close>

lemma tp_value_create: "tp_value (create tp t s) x = tp_value tp (x + t) + s"
  by (cases tp) (simp_all add: algebra_simps)

lemma tp_derivative_create: "tp_derivative (create tp t s) x n = tp_derivative tp (x + t) n"
  by (cases tp) (simp_all add: algebra_simps)

lemma tp_value_createWithCheck:
  "tp_value (createWithCheck tp t s) x = tp_value tp (x + t) + s"
  by (simp add: createWithCheck_def tp_value_create)

lemma tp_value_copy: "tp_value (tp_copy tp) x = tp_value tp x"
  by (induction tp arbitrary: x) (simp_all add: tp_value_create)

lemma canonical_create: "canonical tp \<Longrightarrow> canonical (create tp t s)"
  by (cases tp) simp_all

lemma canonical_copy: "canonical (tp_copy tp)"
  by (induction tp) (simp_all add: canonical_create)

text \<open>
  C9. Shift composition is canonicalizing. Creating a shift by \<open>(t, s)\<close> over a
  parameterization that is already a \<open>Shift\<close> by \<open>(t0, s0)\<close> of \<open>tp0\<close> gives the single
  \<open>Shift\<close> of \<open>tp0\<close> by \<open>(t0 + t, s0 + s)\<close>, through \<open>create\<close> and through
  \<open>createWithCheck\<close>; \<open>createWithCheck\<close> with both offsets zero returns the inner
  parameterization unchanged; and no \<open>Shift\<close> wrapping a \<open>Shift\<close> is ever built: from a
  parameterization with no nested shift, both functions return one with no nested shift.
\<close>

theorem Shift_create_folds:
  "create (Shift tp0 t0 s0) t s = Shift tp0 (t0 + t) (s0 + s)
   \<and> createWithCheck (Shift tp0 t0 s0) t s = Shift tp0 (t0 + t) (s0 + s)
   \<and> createWithCheck tp 0 0 = tp
   \<and> (canonical tp \<longrightarrow> canonical (create tp t s) \<and> canonical (createWithCheck tp t s))"
  by (simp add: createWithCheck_def canonical_create)

theorem Shift_create_folds_witness:
  "canonical (Shift ex_tp 1 2)
   \<and> create (Shift ex_tp 1 2) 3 4 = Shift ex_tp 4 6
   \<and> createWithCheck (Shift ex_tp 1 2) 3 4 = Shift ex_tp 4 6
   \<and> canonical (create (Shift ex_tp 1 2) 3 4)"
  using Shift_create_folds [of ex_tp 1 2 3 4 "Shift ex_tp 1 2"]
  by (simp add: ex_tp_def)

section \<open>Paths\<close>

text \<open>
  C6. On a path with an attached time parameterization \<open>g\<close>, \<open>derivative\<close> at time \<open>t\<close>
  returns \<open>f'(g(t)) g'(t)\<close> for order 1 and \<open>f''(g(t)) g'(t)\<^sup>2 + f'(g(t)) g''(t)\<close> for
  order 2, where the derivatives of the underlying curve \<open>f\<close> are those \<open>impl_derivative\<close>
  gives; for every order greater than 2 it fails with an invalid-argument error.
\<close>

theorem derivative_chain_rule:
  assumes "timeParam p = Some g"
  shows "derivative p t 1 = Inr (tp_derivative g t 1 *\<^sub>R impl_derivative p (tp_value g t) 1)
    \<and> derivative p t 2 =
        Inr ((tp_derivative g t 1)\<^sup>2 *\<^sub>R impl_derivative p (tp_value g t) 2
             + tp_derivative g t 2 *\<^sub>R impl_derivative p (tp_value g t) 1)
    \<and> (2 < order \<longrightarrow>
          derivative p t order =
            Inl (Invalid_argument ''Cannot compute the derivative of order greater than 2.''))"
  using assms by (simp add: derivative_def Let_def power2_eq_square)

theorem derivative_chain_rule_witness:
  "timeParam ex_path = Some ex_tp
   \<and> derivative ex_path 1 1 = Inr 294
   \<and> derivative ex_path 1 2 = Inr 168
   \<and> derivative ex_path 1 3 =
       Inl (Invalid_argument ''Cannot compute the derivative of order greater than 2.'')"
  using derivative_chain_rule [of ex_path ex_tp 1 3]
  by (simp add: ex_path_def ex_tp_def)

text \<open>
  C8. Saving a path that carries a time parameterization fails with a logic error; saving
  a path without one does not raise it (and leaves the path as it is).
\<close>

theorem serialize_time_parameterization:
  "(timeParam p \<noteq> None \<longrightarrow>
      serialize True p =
        Inl (Logic_error
          ''At the moment, it is not possible to serialize a Path with time parameterization.''))
   \<and> (timeParam p = None \<longrightarrow> serialize True p = Inr p)"
  by (simp add: serialize_def)

theorem serialize_time_parameterization_witness:
  "serialize True ex_path =
     Inl (Logic_error
       ''At the moment, it is not possible to serialize a Path with time parameterization.'')
   \<and> serialize True (ex_path\<lparr>timeParam := None\<rparr>) = Inr (ex_path\<lparr>timeParam := None\<rparr>)"
  using serialize_time_parameterization [of ex_path]
    serialize_time_parameterization [of "ex_path\<lparr>timeParam := None\<rparr>"]
  by (simp add: ex_path_def)

lemma extract_path_unshifted:
  assumes "timeParam p = Some tp"
  shows "timeParam (extract_path impl_extract p sub) = Some (tp_copy tp)"
  using assms
  by (simp add: extract_path_def set_timeParameterization_def set_timeRange_def Let_def
      split: prod.splits)

text \<open>
  The \<open>paramRange\<close> of the path returned, with the shift dropped (the code) and with the
  shift attached: when \<open>impl_extract\<close> returns the requested parameter interval moved by
  \<open>d\<close>, attaching the shift gives the range of the extracted path, and the code does so
  too when \<open>d = 0\<close>.
\<close>

lemma extract_path_paramRange:
  assumes "timeParam p = Some tp"
    and "extract_shift sub (tp_value tp (fst sub), tp_value tp (snd sub))
           (paramRange (impl_extract p (tp_value tp (fst sub), tp_value tp (snd sub))))
         = (shift_t, shift_s, ti)"
  shows "paramRange (extract_path impl_extract p sub) = (tp_value tp (fst ti), tp_value tp (snd ti))"
    and "paramRange (extract_shifted impl_extract p sub)
           = (tp_value tp (fst ti + shift_t) + shift_s, tp_value tp (snd ti + shift_t) + shift_s)"
  using assms
  by (simp_all add: extract_path_def extract_shifted_def set_timeParameterization_def
      set_timeRange_def Let_def tp_value_copy tp_value_createWithCheck)

lemma extract_shifted_paramRange:
  assumes "timeParam p = Some tp" and "fst sub \<le> snd sub"
    and "paramRange (impl_extract p (tp_value tp (fst sub), tp_value tp (snd sub)))
           = (tp_value tp (fst sub) + d, tp_value tp (snd sub) + d)"
  shows "paramRange (extract_shifted impl_extract p sub)
           = paramRange (impl_extract p (tp_value tp (fst sub), tp_value tp (snd sub)))"
    and "d = 0 \<Longrightarrow> paramRange (extract_path impl_extract p sub)
           = paramRange (impl_extract p (tp_value tp (fst sub), tp_value tp (snd sub)))"
  using assms
  by (simp_all add: extract_path_def extract_shifted_def extract_shift_def
      set_timeParameterization_def set_timeRange_def Let_def tp_value_copy
      tp_value_createWithCheck)

text \<open>
  C3. The claim: on a path with a time parameterization, \<open>extract\<close> maps the sub-interval
  through the parameterization, extracts over the resulting parameter interval and
  attaches a shifted copy of the parameterization, so that the \<open>paramRange\<close> of the
  returned path is the extracted parameter range. The code computes the shift and drops
  it: it attaches an unshifted copy. Evaluated on \<open>ex_path\<close> (parameterization
  \<open>t \<mapsto> 2 t + 5\<close>) with an \<open>impl_extract\<close> that shifts the extracted range to 0, for the
  sub-interval \<open>[1/2, 1]\<close>: the parameter interval is \<open>[6, 7]\<close>, the extracted path has
  \<open>paramRange = (0, 1)\<close>, the shift computed is \<open>(1/2, -6)\<close>, and the path returned has the
  original parameterization and \<open>paramRange = (5, 6)\<close>. Attaching the shift computed gives
  \<open>paramRange = (0, 1)\<close>.
\<close>

theorem extract_path_drops_shift:
  "paramRange (ex_impl_extract ex_path (tp_value ex_tp (1 / 2), tp_value ex_tp 1)) = (0, 1)
   \<and> paramRange (extract_path ex_impl_extract ex_path (1 / 2, 1)) = (5, 6)
   \<and> timeRange (extract_path ex_impl_extract ex_path (1 / 2, 1)) = (0, 1 / 2)
   \<and> timeParam (extract_path ex_impl_extract ex_path (1 / 2, 1)) = Some ex_tp
   \<and> extract_shift (1 / 2, 1) (6, 7) (0, 1) = (1 / 2, - 6, (0, 1 / 2))
   \<and> paramRange (extract_shifted ex_impl_extract ex_path (1 / 2, 1)) = (0, 1)
   \<and> timeParam (extract_shifted ex_impl_extract ex_path (1 / 2, 1))
       = Some (Shift ex_tp (1 / 2) (- 6))"
  by (simp add: extract_path_def extract_shifted_def extract_shift_def ex_impl_extract_def
      set_timeParameterization_def set_timeRange_def createWithCheck_def ex_path_def ex_tp_def
      Let_def)

section \<open>Hermite paths: boundary velocities\<close>

lemma scale_roundtrip:
  fixes w :: "'v::real_vector" and L :: real
  assumes "L \<noteq> 0"
  shows "(3 *\<^sub>R (L *\<^sub>R (w /\<^sub>R 3))) /\<^sub>R L = w"
proof -
  have "(3 *\<^sub>R (L *\<^sub>R (w /\<^sub>R 3))) /\<^sub>R L = (inverse L * (3 * (L * inverse 3))) *\<^sub>R w"
    by simp
  also have "inverse L * (3 * (L * inverse 3)) = 1"
    using assms by (simp add: field_simps)
  finally show ?thesis by simp
qed

lemma v0_set_v0:
  "fst (timeRange h) \<noteq> snd (timeRange h) \<Longrightarrow> parameters h 0 = 0 \<Longrightarrow> v0 (set_v0 h w) = w"
  using scale_roundtrip [of "snd (timeRange h) - fst (timeRange h)" w]
  by (simp add: set_v0_def v0_def)

lemma v1_set_v1: "fst (timeRange h) \<noteq> snd (timeRange h) \<Longrightarrow> v1 (set_v1 h w) = w"
  using scale_roundtrip [of "snd (timeRange h) - fst (timeRange h)" w]
  by (simp add: set_v1_def v1_def)

lemma v0_set_v1: "v0 (set_v1 h w) = v0 h"
  by (simp add: set_v1_def v0_def)

lemma v0_doComputeHermiteLength: "v0 (doComputeHermiteLength E h) = v0 h"
  by (simp add: doComputeHermiteLength_def v0_def)

lemma v1_doComputeHermiteLength: "v1 (doComputeHermiteLength E h) = v1 h"
  by (simp add: doComputeHermiteLength_def v1_def)

lemma set_v_frame:
  "timeRange (set_v0 h w) = timeRange h" "timeRange (set_v1 h w) = timeRange h"
  "parameters (set_v0 h w) 0 = parameters h 0" "parameters (set_v1 h w) 0 = parameters h 0"
  "timeRange (doComputeHermiteLength E h) = timeRange h"
  "parameters (doComputeHermiteLength E h) = parameters h"
  by (simp_all add: set_v0_def set_v1_def doComputeHermiteLength_def)

text \<open>
  C7, as amended. On every Hermite path, the setter of \<open>v0\<close> called with a velocity
  \<open>speed\<close> stores \<open>speed / 3 * (timeRange.second - timeRange.first)\<close> in row 1 and leaves
  the other rows, the setter of \<open>v1\<close> stores row 3 minus that value in row 2 and leaves
  the other rows, and both set the cached \<open>hermiteLength\<close> to \<open>-1\<close>. Nothing is said of
  what the getter returns afterwards.
\<close>

theorem set_velocity:
  "parameters (set_v0 h w) 1 = (snd (timeRange h) - fst (timeRange h)) *\<^sub>R (w /\<^sub>R 3)
   \<and> parameters (set_v0 h w) 0 = parameters h 0
   \<and> parameters (set_v0 h w) 2 = parameters h 2
   \<and> parameters (set_v0 h w) 3 = parameters h 3
   \<and> hermiteLength (set_v0 h w) = - 1
   \<and> parameters (set_v1 h w) 2
       = parameters h 3 - (snd (timeRange h) - fst (timeRange h)) *\<^sub>R (w /\<^sub>R 3)
   \<and> parameters (set_v1 h w) 0 = parameters h 0
   \<and> parameters (set_v1 h w) 1 = parameters h 1
   \<and> parameters (set_v1 h w) 3 = parameters h 3
   \<and> hermiteLength (set_v1 h w) = - 1"
  by (simp add: set_v0_def set_v1_def)

theorem set_velocity_witness:
  "parameters (set_v0 (ex_hermite (0, 2) 0 6) 5) 1 = 2 * (5 / 3)
   \<and> hermiteLength (set_v0 (ex_hermite (0, 2) 0 6) 5) = - 1
   \<and> parameters (set_v1 (ex_hermite (0, 2) 0 6) 5) 2 = 6 - 2 * (5 / 3)
   \<and> hermiteLength (set_v1 (ex_hermite (0, 2) 0 6) 5) = - 1"
  using set_velocity [of "ex_hermite (0, 2) 0 6" 5]
  by (simp add: ex_hermite_def)

text \<open>
  The claim as stated ends with: after setting \<open>v0\<close> to \<open>w\<close>, the getter of \<open>v0\<close> returns
  \<open>w\<close>. That fails on a time range of length zero: the setter stores \<open>1 / 3 * 0 = 0\<close> and
  the getter divides \<open>3 * (0 - 0)\<close> by 0, which is not the vector 1 that was set (not a
  number in C++, 0 in the model). On the other time ranges the getter returns \<open>w\<close> in
  exact arithmetic when row 0 is zero (lemmas \<open>v0_set_v0\<close>, \<open>v1_set_v1\<close>), and in
  doubles a value that can differ from \<open>w\<close> in the last bits.
\<close>

theorem set_v0_degenerate: "v0 (set_v0 (ex_hermite (0, 0) 0 1) 1) \<noteq> 1"
  by (simp add: set_v0_def v0_def ex_hermite_def)

section \<open>The recursive Hermite projector\<close>

text \<open>
  C5. The claim: constructing the projector throws an invalid-argument error if and only
  if \<open>beta\<close> is outside \<open>[0.5, 1]\<close> or the steering method is not a Hermite steering
  method. For every \<open>beta\<close> other than NaN (the infinities included) both constructors do
  so, and with a Hermite steering method \<open>beta = 0.3\<close> and \<open>beta = 1.2\<close> fail, \<open>beta = 0.5\<close>
  and \<open>beta = 1\<close> succeed. A NaN \<open>beta\<close> is outside \<open>[0.5, 1]\<close> and both comparisons of the
  guard are false on it: with a Hermite steering method the constructors build the
  projector, with \<open>beta_\<close> NaN.
\<close>

theorem RecursiveHermite_invalid_argument:
  "(beta \<noteq> NaN \<longrightarrow>
      ((\<exists>msg. RecursiveHermite sm M beta = Inl (Invalid_argument msg))
         \<longleftrightarrow> \<not> in_beta_range beta \<or> \<not> sm)
    \<and> ((\<exists>rh. RecursiveHermite sm M beta = Inr rh) \<longleftrightarrow> in_beta_range beta \<and> sm)
    \<and> ((\<exists>msg. RecursiveHermite_times sm M beta ts = Inl (Invalid_argument msg))
         \<longleftrightarrow> \<not> in_beta_range beta \<or> \<not> sm)
    \<and> ((\<exists>rh. RecursiveHermite_times sm M beta ts = Inr rh) \<longleftrightarrow> in_beta_range beta \<and> sm))
   \<and> isl (RecursiveHermite True M (Num (3 / 10))) \<and> isl (RecursiveHermite True M (Num (12 / 10)))
   \<and> \<not> isl (RecursiveHermite True M (Num (1 / 2))) \<and> \<not> isl (RecursiveHermite True M (Num 1))
   \<and> \<not> in_beta_range NaN
   \<and> RecursiveHermite True M NaN
       = Inr \<lparr>rh_M = M, rh_beta = NaN, rh_interpolationTimes = []\<rparr>
   \<and> RecursiveHermite_times True M NaN ts
       = Inr \<lparr>rh_M = M, rh_beta = NaN, rh_interpolationTimes = ts\<rparr>"
  by (cases beta) (auto simp add: RecursiveHermite_def RecursiveHermite_times_def)

theorem RecursiveHermite_invalid_argument_witness:
  "(\<exists>msg. RecursiveHermite False 1 (Num (3 / 4)) = Inl (Invalid_argument msg))
   \<and> (\<exists>msg. RecursiveHermite True 1 (Num (3 / 10)) = Inl (Invalid_argument msg))
   \<and> (\<exists>msg. RecursiveHermite True 1 PInf = Inl (Invalid_argument msg))
   \<and> (\<exists>rh. RecursiveHermite True 1 (Num (3 / 4)) = Inr rh)
   \<and> RecursiveHermite True 1 NaN = Inr \<lparr>rh_M = 1, rh_beta = NaN, rh_interpolationTimes = []\<rparr>"
  using RecursiveHermite_invalid_argument [of "Num (3 / 4)" False 1 "[]"]
    RecursiveHermite_invalid_argument [of "Num (3 / 10)" True 1 "[]"]
    RecursiveHermite_invalid_argument [of PInf True 1 "[]"]
    RecursiveHermite_invalid_argument [of "Num (3 / 4)" True 1 "[]"]
  by simp

subsection \<open>The bisection\<close>

lemma bisect_children:
  assumes "bisect l E path = Inr (Some (left, right))"
  shows "\<exists>left0 right0.
     left = doComputeHermiteLength E
       (set_v1 (set_v0 left0 (case l of L1 \<Rightarrow> v0 path /\<^sub>R 2 | _ \<Rightarrow> v0 path))
          (case l of L1 \<Rightarrow> velocity E path (1 / 2) /\<^sub>R 2
           | _ \<Rightarrow> velocity E path (fst (timeRange path) + length_path path / 2)))
   \<and> right = doComputeHermiteLength E
       (set_v1 (set_v0 right0
          (case l of L1 \<Rightarrow> velocity E path (1 / 2) /\<^sub>R 2
           | _ \<Rightarrow> velocity E path (fst (timeRange path) + length_path path / 2)))
          (case l of L1 \<Rightarrow> v1 path /\<^sub>R 2 | _ \<Rightarrow> v1 path))"
  using assms
  by (cases l)
     (auto simp add: bisect_def Let_def split: prod.splits if_splits option.splits)

lemma bisect_ex_L1:
  "bisect L1 (ex_env c) ex_parent
     = Inr (Some (ex_child (0, 1) 0 c 1 (1 / 2), ex_child (0, 1) c 1 (1 / 2) 2))"
  by (simp add: bisect_def ex_env_def ex_parent_def ex_child_def ex_hermite_def
      set_v0_def set_v1_def v0_def v1_def doComputeHermiteLength_def length_path_def Let_def)

lemma bisect_ex_L3:
  "bisect L3 (ex_env c) ex_parent
     = Inr (Some (ex_child (0, 1 / 2) 0 c 2 1, ex_child (1 / 2, 1) c 1 1 4))"
  by (simp add: bisect_def ex_env_def ex_parent_def ex_child_def ex_hermite_def
      set_v0_def set_v1_def v0_def v1_def doComputeHermiteLength_def length_path_def Let_def)

lemma bisect_ex_fail:
  "bisect L3 ex_env_fail ex_parent
     = Inr (Some (ex_child (0, 1 / 2) 0 (1 / 2) 2 1, ex_child (1 / 2, 1) (1 / 2) 1 1 4))"
  "bisect L3 ex_env_fail (ex_child (0, 1 / 2) 0 (1 / 2) 2 1) = Inr None"
  by (simp_all add: bisect_def ex_env_fail_def ex_env_def ex_parent_def ex_child_def ex_hermite_def
      set_v0_def set_v1_def v0_def v1_def doComputeHermiteLength_def length_path_def Let_def)

text \<open>
  C4, as amended. Each child built at the bisection inherits the parent's outer boundary
  velocity and receives the tangent at the midpoint at the shared end. In listing \<open>L1\<close>
  (children steered without a time range, midpoint \<open>t = 0.5\<close>) the three velocities are
  divided by two: left gets \<open>v0 = parent.v0 / 2\<close> and \<open>v1 = velocity(t) / 2\<close>, right gets
  \<open>v0 = velocity(t) / 2\<close> and \<open>v1 = parent.v1 / 2\<close>. In listings \<open>L2\<close> and \<open>L3\<close> (children
  steered over the two halves of the parent's time range, midpoint
  \<open>t = timeRange.first + length / 2\<close>) they are handed over as they are: left gets
  \<open>v0 = parent.v0\<close> and \<open>v1 = velocity(t)\<close>, right gets \<open>v0 = velocity(t)\<close> and
  \<open>v1 = parent.v1\<close>. These velocities \<open>vl\<close>, \<open>vm\<close>, \<open>vr\<close> are what the setters of the
  steered pieces \<open>left0\<close>, \<open>right0\<close> are called with, and what the getters of the
  children return when the child's time range has a length other than zero (and, for
  \<open>v0\<close>, its first control point is zero).
\<close>

theorem bisect_child_velocities:
  assumes "bisect l E path = Inr (Some (left, right))"
  shows "\<exists>left0 right0 vl vm vr.
      (l = L1 \<longrightarrow>
         vl = v0 path /\<^sub>R 2 \<and> vm = velocity E path (1 / 2) /\<^sub>R 2 \<and> vr = v1 path /\<^sub>R 2)
    \<and> (l \<noteq> L1 \<longrightarrow>
         vl = v0 path
       \<and> vm = velocity E path (fst (timeRange path) + length_path path / 2)
       \<and> vr = v1 path)
    \<and> left = doComputeHermiteLength E (set_v1 (set_v0 left0 vl) vm)
    \<and> right = doComputeHermiteLength E (set_v1 (set_v0 right0 vm) vr)
    \<and> (fst (timeRange left) \<noteq> snd (timeRange left) \<and> parameters left 0 = 0 \<longrightarrow> v0 left = vl)
    \<and> (fst (timeRange left) \<noteq> snd (timeRange left) \<longrightarrow> v1 left = vm)
    \<and> (fst (timeRange right) \<noteq> snd (timeRange right) \<and> parameters right 0 = 0 \<longrightarrow> v0 right = vm)
    \<and> (fst (timeRange right) \<noteq> snd (timeRange right) \<longrightarrow> v1 right = vr)"
proof -
  define vl where "vl = (case l of L1 \<Rightarrow> v0 path /\<^sub>R 2 | _ \<Rightarrow> v0 path)"
  define vm where "vm = (case l of L1 \<Rightarrow> velocity E path (1 / 2) /\<^sub>R 2
           | _ \<Rightarrow> velocity E path (fst (timeRange path) + length_path path / 2))"
  define vr where "vr = (case l of L1 \<Rightarrow> v1 path /\<^sub>R 2 | _ \<Rightarrow> v1 path)"
  from bisect_children [OF assms] obtain left0 right0 where
    left: "left = doComputeHermiteLength E (set_v1 (set_v0 left0 vl) vm)"
    and right: "right = doComputeHermiteLength E (set_v1 (set_v0 right0 vm) vr)"
    unfolding vl_def vm_def vr_def by blast
  have listing: "l = L1 \<longrightarrow>
         vl = v0 path /\<^sub>R 2 \<and> vm = velocity E path (1 / 2) /\<^sub>R 2 \<and> vr = v1 path /\<^sub>R 2"
    "l \<noteq> L1 \<longrightarrow>
         vl = v0 path
       \<and> vm = velocity E path (fst (timeRange path) + length_path path / 2)
       \<and> vr = v1 path"
    by (cases l; simp add: vl_def vm_def vr_def)+
  have getters:
    "fst (timeRange left) \<noteq> snd (timeRange left) \<and> parameters left 0 = 0 \<longrightarrow> v0 left = vl"
    "fst (timeRange left) \<noteq> snd (timeRange left) \<longrightarrow> v1 left = vm"
    "fst (timeRange right) \<noteq> snd (timeRange right) \<and> parameters right 0 = 0 \<longrightarrow> v0 right = vm"
    "fst (timeRange right) \<noteq> snd (timeRange right) \<longrightarrow> v1 right = vr"
    by (simp_all add: left right v0_doComputeHermiteLength v1_doComputeHermiteLength
          v0_set_v1 v0_set_v0 v1_set_v1 set_v_frame)
  from listing left right getters show ?thesis by blast
qed

theorem bisect_child_velocities_witness:
  "bisect L1 (ex_env (1 / 2)) ex_parent
     = Inr (Some (ex_child (0, 1) 0 (1 / 2) 1 (1 / 2), ex_child (0, 1) (1 / 2) 1 (1 / 2) 2))
   \<and> v0 ex_parent = 2 \<and> v1 ex_parent = 4 \<and> velocity (ex_env (1 / 2)) ex_parent (1 / 2) = 1
   \<and> v0 (ex_child (0, 1) 0 (1 / 2) 1 (1 / 2)) = 1
   \<and> v1 (ex_child (0, 1) 0 (1 / 2) 1 (1 / 2)) = 1 / 2
   \<and> v0 (ex_child (0, 1) (1 / 2) 1 (1 / 2) 2) = 1 / 2
   \<and> v1 (ex_child (0, 1) (1 / 2) 1 (1 / 2) 2) = 2
   \<and> bisect L3 (ex_env (1 / 2)) ex_parent
     = Inr (Some (ex_child (0, 1 / 2) 0 (1 / 2) 2 1, ex_child (1 / 2, 1) (1 / 2) 1 1 4))
   \<and> v0 (ex_child (0, 1 / 2) 0 (1 / 2) 2 1) = 2
   \<and> v1 (ex_child (0, 1 / 2) 0 (1 / 2) 2 1) = 1
   \<and> v0 (ex_child (1 / 2, 1) (1 / 2) 1 1 4) = 1
   \<and> v1 (ex_child (1 / 2, 1) (1 / 2) 1 1 4) = 4"
proof -
  have frame: "fst (timeRange (ex_child (a, b) p q va vb)) = a"
    "snd (timeRange (ex_child (a, b) p q va vb)) = b"
    "parameters (ex_child (a, b) p q va vb) 0 = 0" for a b p q va vb
    by (simp_all add: ex_child_def ex_hermite_def set_v0_def set_v1_def)
  have parent: "v0 ex_parent = 2" "v1 ex_parent = 4"
    "velocity (ex_env (1 / 2)) ex_parent t = 1" "timeRange ex_parent = (0, 1)" for t
    by (simp_all add: ex_parent_def ex_child_def ex_hermite_def ex_env_def
        set_v0_def set_v1_def v0_def v1_def)
  show ?thesis
    using bisect_child_velocities [OF bisect_ex_L1 [of "1 / 2"]]
      bisect_child_velocities [OF bisect_ex_L3 [of "1 / 2"]]
    by (auto simp add: frame parent bisect_ex_L1 bisect_ex_L3 length_path_def)
qed

text \<open>
  The claim as stated fails on listings \<open>L2\<close> and \<open>L3\<close>: the children of \<open>ex_parent\<close>
  (\<open>v0 = 2\<close>, \<open>v1 = 4\<close>, velocity 1 at the midpoint) have the velocities \<open>(2, 1, 1, 4)\<close>,
  not the halved \<open>(1, 1/2, 1/2, 2)\<close>.
\<close>

theorem bisect_time_range_velocities:
  "child_velocities (bisect L3 (ex_env (1 / 2)) ex_parent) = Some (2, 1, 1, 4)
   \<and> child_velocities (bisect L2 (ex_env (1 / 2)) ex_parent) = Some (2, 1, 1, 4)
   \<and> child_velocities (bisect L3 (ex_env (1 / 2)) ex_parent)
       \<noteq> Some (v0 ex_parent /\<^sub>R 2, velocity (ex_env (1 / 2)) ex_parent (1 / 2) /\<^sub>R 2,
               velocity (ex_env (1 / 2)) ex_parent (1 / 2) /\<^sub>R 2, v1 ex_parent /\<^sub>R 2)"
  by (simp add: child_velocities_def bisect_def ex_env_def ex_parent_def ex_child_def
      ex_hermite_def set_v0_def set_v1_def v0_def v1_def doComputeHermiteLength_def
      length_path_def Let_def)

text \<open>
  Why the listings differ: the setters multiply the velocity by the length of the child's
  time range. When steering gives the child a time range as long as the parent's
  (\<open>L1\<close>) the velocity is halved; when it gives it half the parent's time range (\<open>L2\<close>,
  \<open>L3\<close>) the velocity is not. In every listing the control points stored are the same:
  the offset of the child's inner control point from its end point is half the parent's.
\<close>

lemma bisect_control_points:
  assumes "bisect l E path = Inr (Some (left, right))"
    and "parameters path 0 = 0" and "length_path path \<noteq> 0"
    and "length_path left = (case l of L1 \<Rightarrow> length_path path | _ \<Rightarrow> length_path path / 2)"
    and "length_path right = (case l of L1 \<Rightarrow> length_path path | _ \<Rightarrow> length_path path / 2)"
  shows "parameters left 1 = parameters path 1 /\<^sub>R 2
       \<and> parameters right 3 - parameters right 2
           = (parameters path 3 - parameters path 2) /\<^sub>R 2"
proof -
  from bisect_children [OF assms(1)] obtain left0 right0 where
    left: "left = doComputeHermiteLength E
       (set_v1 (set_v0 left0 (case l of L1 \<Rightarrow> v0 path /\<^sub>R 2 | _ \<Rightarrow> v0 path))
          (case l of L1 \<Rightarrow> velocity E path (1 / 2) /\<^sub>R 2
           | _ \<Rightarrow> velocity E path (fst (timeRange path) + length_path path / 2)))"
    and right: "right = doComputeHermiteLength E
       (set_v1 (set_v0 right0
          (case l of L1 \<Rightarrow> velocity E path (1 / 2) /\<^sub>R 2
           | _ \<Rightarrow> velocity E path (fst (timeRange path) + length_path path / 2)))
          (case l of L1 \<Rightarrow> v1 path /\<^sub>R 2 | _ \<Rightarrow> v1 path))"
    by blast
  have l0: "length_path left0 = length_path left" and r0: "length_path right0 = length_path right"
    by (simp_all add: left right length_path_def set_v_frame)
  have pl: "parameters left 1
      = length_path left0 *\<^sub>R ((case l of L1 \<Rightarrow> v0 path /\<^sub>R 2 | _ \<Rightarrow> v0 path) /\<^sub>R 3)"
    by (simp add: left doComputeHermiteLength_def set_v0_def set_v1_def length_path_def)
  have pr: "parameters right 3 - parameters right 2
      = length_path right0 *\<^sub>R ((case l of L1 \<Rightarrow> v1 path /\<^sub>R 2 | _ \<Rightarrow> v1 path) /\<^sub>R 3)"
    by (simp add: right doComputeHermiteLength_def set_v0_def set_v1_def length_path_def)
  have v: "v0 path = (3 *\<^sub>R parameters path 1) /\<^sub>R length_path path"
    "v1 path = (3 *\<^sub>R (parameters path 3 - parameters path 2)) /\<^sub>R length_path path"
    using assms(2) by (simp_all add: v0_def v1_def length_path_def)
  show ?thesis
    unfolding pl pr l0 r0 assms(4,5) v
    using assms(3) by (cases l) simp_all
qed

subsection \<open>The recursion\<close>

text \<open>
  The outcome of a run does not depend on the fuel, once there is enough of it; and a
  call that returns has extended the path vector and the log of calls, the log by its
  own piece first.
\<close>

lemma recurse_fuel_mono:
  "recurse l E beta n path st acceptThr = Some r
     \<Longrightarrow> recurse l E beta (n + k) path st acceptThr = Some r"
proof (induction n arbitrary: path st r)
  case 0
  then show ?case by simp
next
  case (Suc n)
  show ?case
  proof (cases "less_d (Num (hermiteLength path)) acceptThr")
    case True
    with Suc.prems show ?thesis by (simp add: Let_def)
  next
    case False
    show ?thesis
    proof (cases "bisect l E path")
      case (Inl e)
      with False Suc.prems show ?thesis by (simp add: Let_def)
    next
      case (Inr ch)
      show ?thesis
      proof (cases ch)
        case None
        with False Inr Suc.prems show ?thesis by (simp add: Let_def)
      next
        case (Some lr)
        obtain left right where lr: "lr = (left, right)" by (cases lr)
        show ?thesis
          using Suc.prems False Inr Some lr
            Suc.IH [of left "(fst st, snd st @ [path])"] Suc.IH [of right]
          by (auto simp add: Let_def split: option.splits sum.splits if_splits)
      qed
    qed
  qed
qed

lemma recurse_extends:
  "recurse l E beta n path (proj, calls) acceptThr = Some (Inr (ok, proj', calls'))
     \<Longrightarrow> \<exists>ps cs. proj' = proj @ ps \<and> calls' = calls @ path # cs"
proof (induction n arbitrary: path proj calls ok proj' calls')
  case 0
  then show ?case by simp
next
  case (Suc n)
  show ?case
  proof (cases "less_d (Num (hermiteLength path)) acceptThr")
    case True
    with Suc.prems show ?thesis by (auto simp add: Let_def)
  next
    case False
    show ?thesis
    proof (cases "bisect l E path")
      case (Inl e)
      with False Suc.prems show ?thesis by (simp add: Let_def)
    next
      case (Inr ch)
      show ?thesis
      proof (cases ch)
        case None
        with False Inr Suc.prems show ?thesis by (auto simp add: Let_def)
      next
        case (Some lr)
        obtain left right where lr: "lr = (left, right)" by (cases lr)
        show ?thesis
        proof (cases "less_d (mult_d beta (hermiteLength path)) (Num (hermiteLength left))")
          case True
          with False Inr Some lr Suc.prems show ?thesis by (auto simp add: Let_def)
        next
          case nl: False
          from Suc.prems False Inr Some lr nl
          obtain okL projL callsL where
            rl: "recurse l E beta n left (proj, calls @ [path]) acceptThr
                   = Some (Inr (okL, projL, callsL))"
            by (cases "recurse l E beta n left (proj, calls @ [path]) acceptThr")
               (auto simp add: Let_def split: sum.splits)
          from Suc.IH [OF rl] obtain ps cs where
            ext: "projL = proj @ ps" "callsL = (calls @ [path]) @ left # cs" by blast
          show ?thesis
          proof (cases "okL \<and> \<not> less_d (mult_d beta (hermiteLength path)) (Num (hermiteLength right))")
            case False
            with Suc.prems \<open>\<not> less_d (Num (hermiteLength path)) acceptThr\<close> Inr Some lr nl rl ext
            show ?thesis by (auto simp add: Let_def split: if_splits)
          next
            case True
            from Suc.prems \<open>\<not> less_d (Num (hermiteLength path)) acceptThr\<close> Inr Some lr nl rl True
            obtain okR projR callsR where
              rr: "recurse l E beta n right (projL, callsL) acceptThr
                     = Some (Inr (okR, projR, callsR))"
              by (cases "recurse l E beta n right (projL, callsL) acceptThr")
                 (auto simp add: Let_def split: sum.splits)
            from Suc.IH [OF rr] obtain ps' cs' where
              ext': "projR = projL @ ps'" "callsR = callsL @ right # cs'" by blast
            from Suc.prems \<open>\<not> less_d (Num (hermiteLength path)) acceptThr\<close> Inr Some lr nl rl True rr ext ext'
            show ?thesis by (auto simp add: Let_def split: if_splits)
          qed
        qed
      qed
    qed
  qed
qed

lemma bisect_ex_throw:
  "bisect L3 ex_env_throw ex_parent
     = Inr (Some (ex_child (0, 1 / 2) 0 (1 / 4) 2 1, ex_child (1 / 2, 1) (1 / 4) 1 1 4))"
  "bisect L3 ex_env_throw (ex_child (0, 1 / 2) 0 (1 / 4) 2 1)
     = Inl (Runtime_error ''Not an path::Hermite'')"
  by (simp_all add: bisect_def ex_env_throw_def ex_env_def ex_parent_def ex_child_def
      ex_hermite_def set_v0_def set_v1_def v0_def v1_def doComputeHermiteLength_def
      length_path_def Let_def)

lemma ex_lengths:
  "hermiteLength ex_parent = 1"
  "hermiteLength (ex_child tr a b va vb) = \<bar>b - a\<bar>"
  by (simp_all add: ex_parent_def ex_child_def)

text \<open>
  C2, as amended. For a piece whose \<open>hermiteLength\<close> is at least the acceptance threshold
  and whose two children have been built: if the left child is longer than
  \<open>beta * parent.hermiteLength\<close>, \<open>recurse\<close> returns false at once, with nothing appended
  and no child recursed into. If only the right child is longer, \<open>recurse\<close> recurses into
  the left child first and does what that call does: when it returns, true or false,
  \<open>recurse\<close> returns false with the path vector and the log of calls as that call left
  them; when it throws, \<open>recurse\<close> throws; when it does not return, neither does
  \<open>recurse\<close>. Whenever a child is longer than \<open>beta * parent.hermiteLength\<close>, \<open>recurse\<close>
  returns true for no amount of fuel. When the recursion into the left child returns
  false, \<open>recurse\<close> returns false with the state that call left; so the right child is
  recursed into only when no child is too long and the left child succeeded, and then
  the outcome is that of the recursion into the right child.
\<close>

theorem recurse_contraction_check:
  assumes "\<not> less_d (Num (hermiteLength path)) acceptThr"
    and "bisect l E path = Inr (Some (left, right))"
  shows "(less_d (mult_d beta (hermiteLength path)) (Num (hermiteLength left)) \<longrightarrow>
            recurse l E beta (Suc n) path (proj, calls) acceptThr
              = Some (Inr (False, proj, calls @ [path])))
       \<and> (\<not> less_d (mult_d beta (hermiteLength path)) (Num (hermiteLength left))
            \<and> less_d (mult_d beta (hermiteLength path)) (Num (hermiteLength right)) \<longrightarrow>
            recurse l E beta (Suc n) path (proj, calls) acceptThr
              = (case recurse l E beta n left (proj, calls @ [path]) acceptThr of
                   None \<Rightarrow> None
                 | Some (Inl e) \<Rightarrow> Some (Inl e)
                 | Some (Inr (okL, stL)) \<Rightarrow> Some (Inr (False, stL))))
       \<and> (\<not> less_d (mult_d beta (hermiteLength path)) (Num (hermiteLength left))
            \<and> recurse l E beta n left (proj, calls @ [path]) acceptThr = Some (Inr (False, stF))
            \<longrightarrow> recurse l E beta (Suc n) path (proj, calls) acceptThr = Some (Inr (False, stF)))
       \<and> (less_d (mult_d beta (hermiteLength path)) (Num (hermiteLength left))
            \<or> less_d (mult_d beta (hermiteLength path)) (Num (hermiteLength right)) \<longrightarrow>
            recurse l E beta m path (proj, calls) acceptThr \<noteq> Some (Inr (True, st')))
       \<and> (\<not> less_d (mult_d beta (hermiteLength path)) (Num (hermiteLength left))
            \<and> \<not> less_d (mult_d beta (hermiteLength path)) (Num (hermiteLength right))
            \<and> recurse l E beta n left (proj, calls @ [path]) acceptThr = Some (Inr (True, stT))
            \<longrightarrow> recurse l E beta (Suc n) path (proj, calls) acceptThr
                  = recurse l E beta n right stT acceptThr)"
proof -
  note nacc = assms(1)
  have never: "recurse l E beta m path (proj, calls) acceptThr \<noteq> Some (Inr (True, st'))"
    if stop: "less_d (mult_d beta (hermiteLength path)) (Num (hermiteLength left))
              \<or> less_d (mult_d beta (hermiteLength path)) (Num (hermiteLength right))"
  proof (cases m)
    case 0
    then show ?thesis by simp
  next
    case (Suc k)
    with nacc assms(2) stop show ?thesis
      by (auto simp add: Let_def split: option.splits sum.splits)
  qed
  have right_only: "recurse l E beta (Suc n) path (proj, calls) acceptThr
              = (case recurse l E beta n left (proj, calls @ [path]) acceptThr of
                   None \<Rightarrow> None
                 | Some (Inl e) \<Rightarrow> Some (Inl e)
                 | Some (Inr (okL, stL)) \<Rightarrow> Some (Inr (False, stL)))"
    if "\<not> less_d (mult_d beta (hermiteLength path)) (Num (hermiteLength left))"
      and "less_d (mult_d beta (hermiteLength path)) (Num (hermiteLength right))"
    using that nacc assms(2)
    by (auto simp add: Let_def split: option.splits sum.splits)
  have last: "recurse l E beta (Suc n) path (proj, calls) acceptThr
                = recurse l E beta n right stT acceptThr"
    if "\<not> less_d (mult_d beta (hermiteLength path)) (Num (hermiteLength left))"
      and "\<not> less_d (mult_d beta (hermiteLength path)) (Num (hermiteLength right))"
      and "recurse l E beta n left (proj, calls @ [path]) acceptThr = Some (Inr (True, stT))"
    using that nacc assms(2)
    by (auto simp add: Let_def split: option.splits sum.splits)
  have first: "recurse l E beta (Suc n) path (proj, calls) acceptThr
              = Some (Inr (False, proj, calls @ [path]))"
    if "less_d (mult_d beta (hermiteLength path)) (Num (hermiteLength left))"
    using that nacc assms(2) by (simp add: Let_def)
  have left_fails: "recurse l E beta (Suc n) path (proj, calls) acceptThr = Some (Inr (False, stF))"
    if "\<not> less_d (mult_d beta (hermiteLength path)) (Num (hermiteLength left))"
      and "recurse l E beta n left (proj, calls @ [path]) acceptThr = Some (Inr (False, stF))"
    using that nacc assms(2) by (simp add: Let_def)
  from first right_only left_fails never last show ?thesis by blast
qed

theorem recurse_contraction_check_witness:
  "recurse L3 (ex_env (3 / 4)) (Num (1 / 2)) (Suc 0) ex_parent ([], []) (Num (1 / 2))
     = Some (Inr (False, [], [ex_parent]))
   \<and> recurse L3 (ex_env (1 / 4)) (Num (1 / 2)) (Suc (Suc 0)) ex_parent ([], []) (Num (1 / 2))
     = Some (Inr (False, [ex_child (0, 1 / 2) 0 (1 / 4) 2 1],
                 [ex_parent, ex_child (0, 1 / 2) 0 (1 / 4) 2 1]))
   \<and> recurse L3 ex_env_throw (Num (1 / 2)) (Suc (Suc 0)) ex_parent ([], []) (Num (1 / 8))
     = Some (Inl (Runtime_error ''Not an path::Hermite''))
   \<and> recurse L3 ex_env_fail (Num (1 / 2)) (Suc (Suc 0)) ex_parent ([], []) (Num (1 / 4))
     = Some (Inr (False, [], [ex_parent, ex_child (0, 1 / 2) 0 (1 / 2) 2 1]))
   \<and> recurse L3 (ex_env (1 / 4)) (Num (1 / 2)) 5 ex_parent ([], []) (Num (1 / 2))
     \<noteq> Some (Inr (True, [ex_parent], [ex_parent]))
   \<and> recurse L3 (ex_env (1 / 2)) (Num (1 / 2)) (Suc (Suc 0)) ex_parent ([], []) (Num (3 / 4))
     = Some (Inr (True,
         [ex_child (0, 1 / 2) 0 (1 / 2) 2 1, ex_child (1 / 2, 1) (1 / 2) 1 1 4],
         [ex_parent, ex_child (0, 1 / 2) 0 (1 / 2) 2 1, ex_child (1 / 2, 1) (1 / 2) 1 1 4]))"
proof -
  note L = ex_lengths
  have left: "recurse L3 (ex_env (1 / 4)) (Num (1 / 2)) (Suc 0) (ex_child (0, 1 / 2) 0 (1 / 4) 2 1)
      ([], [ex_parent]) (Num (1 / 2))
      = Some (Inr (True, [ex_child (0, 1 / 2) 0 (1 / 4) 2 1],
                 [ex_parent, ex_child (0, 1 / 2) 0 (1 / 4) 2 1]))"
    by (simp add: L)
  have left_throws: "recurse L3 ex_env_throw (Num (1 / 2)) (Suc 0)
      (ex_child (0, 1 / 2) 0 (1 / 4) 2 1) ([], [ex_parent]) (Num (1 / 8))
      = Some (Inl (Runtime_error ''Not an path::Hermite''))"
    by (simp add: L bisect_ex_throw)
  have left_fail: "recurse L3 ex_env_fail (Num (1 / 2)) (Suc 0) (ex_child (0, 1 / 2) 0 (1 / 2) 2 1)
      ([], [ex_parent]) (Num (1 / 4))
      = Some (Inr (False, [], [ex_parent, ex_child (0, 1 / 2) 0 (1 / 2) 2 1]))"
    by (simp add: L bisect_ex_fail)
  have left_ok: "recurse L3 (ex_env (1 / 2)) (Num (1 / 2)) (Suc 0)
      (ex_child (0, 1 / 2) 0 (1 / 2) 2 1) ([], [ex_parent]) (Num (3 / 4))
      = Some (Inr (True, [ex_child (0, 1 / 2) 0 (1 / 2) 2 1],
                 [ex_parent, ex_child (0, 1 / 2) 0 (1 / 2) 2 1]))"
    by (simp add: L)
  have right_ok: "recurse L3 (ex_env (1 / 2)) (Num (1 / 2)) (Suc 0)
      (ex_child (1 / 2, 1) (1 / 2) 1 1 4)
      ([ex_child (0, 1 / 2) 0 (1 / 2) 2 1], [ex_parent, ex_child (0, 1 / 2) 0 (1 / 2) 2 1])
      (Num (3 / 4))
      = Some (Inr (True,
         [ex_child (0, 1 / 2) 0 (1 / 2) 2 1, ex_child (1 / 2, 1) (1 / 2) 1 1 4],
         [ex_parent, ex_child (0, 1 / 2) 0 (1 / 2) 2 1, ex_child (1 / 2, 1) (1 / 2) 1 1 4]))"
    by (simp add: L)
  have A: "recurse L3 (ex_env (3 / 4)) (Num (1 / 2)) (Suc 0) ex_parent ([], []) (Num (1 / 2))
     = Some (Inr (False, [], [ex_parent]))"
    using recurse_contraction_check [OF _ bisect_ex_L3 [of "3 / 4"],
        where acceptThr = "Num (1 / 2)" and beta = "Num (1 / 2)" and n = 0
          and proj = "[]" and calls = "[]"]
    by (simp add: L del: recurse.simps)
  have B: "recurse L3 (ex_env (1 / 4)) (Num (1 / 2)) (Suc (Suc 0)) ex_parent ([], []) (Num (1 / 2))
     = Some (Inr (False, [ex_child (0, 1 / 2) 0 (1 / 4) 2 1],
                 [ex_parent, ex_child (0, 1 / 2) 0 (1 / 4) 2 1]))"
    using recurse_contraction_check [OF _ bisect_ex_L3 [of "1 / 4"],
        where acceptThr = "Num (1 / 2)" and beta = "Num (1 / 2)" and n = "Suc 0"
          and proj = "[]" and calls = "[]"]
      left
    by (simp add: L del: recurse.simps)
  have C: "recurse L3 ex_env_throw (Num (1 / 2)) (Suc (Suc 0)) ex_parent ([], []) (Num (1 / 8))
     = Some (Inl (Runtime_error ''Not an path::Hermite''))"
    using recurse_contraction_check [OF _ bisect_ex_throw(1),
        where acceptThr = "Num (1 / 8)" and beta = "Num (1 / 2)" and n = "Suc 0"
          and proj = "[]" and calls = "[]"]
      left_throws
    by (simp add: L del: recurse.simps)
  have D: "recurse L3 ex_env_fail (Num (1 / 2)) (Suc (Suc 0)) ex_parent ([], []) (Num (1 / 4))
     = Some (Inr (False, [], [ex_parent, ex_child (0, 1 / 2) 0 (1 / 2) 2 1]))"
    using recurse_contraction_check [OF _ bisect_ex_fail(1),
        where acceptThr = "Num (1 / 4)" and beta = "Num (1 / 2)" and n = "Suc 0"
          and proj = "[]" and calls = "[]"
          and stF = "([], [ex_parent, ex_child (0, 1 / 2) 0 (1 / 2) 2 1])"]
      left_fail
    by (simp add: L del: recurse.simps)
  have E: "recurse L3 (ex_env (1 / 4)) (Num (1 / 2)) 5 ex_parent ([], []) (Num (1 / 2))
     \<noteq> Some (Inr (True, [ex_parent], [ex_parent]))"
    using recurse_contraction_check [OF _ bisect_ex_L3 [of "1 / 4"],
        where acceptThr = "Num (1 / 2)" and beta = "Num (1 / 2)" and m = 5
          and proj = "[]" and calls = "[]" and st' = "([ex_parent], [ex_parent])"]
    by (simp add: L del: recurse.simps)
  have F: "recurse L3 (ex_env (1 / 2)) (Num (1 / 2)) (Suc (Suc 0)) ex_parent ([], []) (Num (3 / 4))
     = Some (Inr (True,
         [ex_child (0, 1 / 2) 0 (1 / 2) 2 1, ex_child (1 / 2, 1) (1 / 2) 1 1 4],
         [ex_parent, ex_child (0, 1 / 2) 0 (1 / 2) 2 1, ex_child (1 / 2, 1) (1 / 2) 1 1 4]))"
    using recurse_contraction_check [OF _ bisect_ex_L3 [of "1 / 2"],
        where acceptThr = "Num (3 / 4)" and beta = "Num (1 / 2)" and n = "Suc 0"
          and proj = "[]" and calls = "[]"
          and stT = "([ex_child (0, 1 / 2) 0 (1 / 2) 2 1],
                      [ex_parent, ex_child (0, 1 / 2) 0 (1 / 2) 2 1])"]
      left_ok right_ok
    by (simp add: L del: recurse.simps)
  from A B C D E F show ?thesis by blast
qed

text \<open>
  The claim as stated has \<open>recurse\<close> return false whenever a child is too long. With only
  the right child too long that depends on the recursion into the left child. On
  \<open>ex_parent\<close> (length 1, threshold \<open>1/8\<close>, \<open>beta = 1/2\<close>) with the midpoint at the first
  quarter, the left child has length \<open>1/4\<close> and the right child \<open>3/4\<close>; the left child is
  bisected in turn, steering over the time range \<open>[0, 1/4]\<close> gives no Hermite path, and
  \<open>recurse\<close> ends by the \<open>std::runtime_error\<close> of line 582 instead of returning false. More
  fuel gives the same outcome.
\<close>

theorem recurse_right_too_long_throws:
  "\<not> less_d (Num (hermiteLength ex_parent)) (Num (1 / 8))
   \<and> bisect L3 ex_env_throw ex_parent
       = Inr (Some (ex_child (0, 1 / 2) 0 (1 / 4) 2 1, ex_child (1 / 2, 1) (1 / 4) 1 1 4))
   \<and> \<not> less_d (mult_d (Num (1 / 2)) (hermiteLength ex_parent))
         (Num (hermiteLength (ex_child (0, 1 / 2) 0 (1 / 4) 2 1)))
   \<and> less_d (mult_d (Num (1 / 2)) (hermiteLength ex_parent))
         (Num (hermiteLength (ex_child (1 / 2, 1) (1 / 4) 1 1 4)))
   \<and> recurse L3 ex_env_throw (Num (1 / 2)) (Suc (Suc 0)) ex_parent ([], []) (Num (1 / 8))
       = Some (Inl (Runtime_error ''Not an path::Hermite''))
   \<and> recurse L3 ex_env_throw (Num (1 / 2)) (Suc (Suc 0)) ex_parent ([], []) (Num (1 / 8))
       \<noteq> Some (Inr (False, [], [ex_parent, ex_child (0, 1 / 2) 0 (1 / 4) 2 1]))"
  by (simp add: ex_lengths bisect_ex_throw)

lemma recurse_throws_any_fuel:
  "recurse L3 ex_env_throw (Num (1 / 2)) (Suc (Suc 0) + k) ex_parent ([], []) (Num (1 / 8))
     = Some (Inl (Runtime_error ''Not an path::Hermite''))"
proof -
  have "recurse L3 ex_env_throw (Num (1 / 2)) (Suc (Suc 0)) ex_parent ([], []) (Num (1 / 8))
       = Some (Inl (Runtime_error ''Not an path::Hermite''))"
    by (simp add: ex_lengths bisect_ex_throw)
  then show ?thesis by (rule recurse_fuel_mono)
qed

text \<open>
  The recursion into the left child need not return either. With the midpoint at the
  initial configuration and the threshold 0, the left child of every piece goes from the
  initial configuration to itself, has length 0, is not shorter than the threshold and is
  bisected again: whatever the fuel, the run of \<open>recurse\<close> on \<open>ex_parent\<close>, whose right
  child alone is too long, does not end.
\<close>

lemma bisect_still:
  "\<exists>left right. bisect L3 (ex_env 0) h = Inr (Some (left, right))
     \<and> init_q left = init_q h \<and> end_q left = init_q h \<and> hermiteLength left = 0
     \<and> hermiteLength right = \<bar>end_q h - init_q h\<bar>"
  by (simp add: bisect_def ex_env_def ex_hermite_def set_v0_def set_v1_def
      doComputeHermiteLength_def Let_def)

lemma less_d_mult_zero: "\<not> less_d (mult_d beta 0) (Num 0)"
  by (cases beta) simp_all

lemma recurse_still_never_ends:
  "init_q h = end_q h \<Longrightarrow> hermiteLength h = 0
     \<Longrightarrow> recurse L3 (ex_env 0) beta n h st (Num 0) = None"
proof (induction n arbitrary: h st)
  case 0
  then show ?case by simp
next
  case (Suc n)
  from bisect_still [of h] obtain left right where
    b: "bisect L3 (ex_env 0) h = Inr (Some (left, right))"
    and l: "init_q left = init_q h" "end_q left = init_q h" "hermiteLength left = 0"
    by blast
  have "recurse L3 (ex_env 0) beta n left (fst st, snd st @ [h]) (Num 0) = None"
    by (rule Suc.IH) (simp_all add: l)
  with b l Suc.prems show ?case
    by (simp add: Let_def less_d_mult_zero)
qed

lemma recurse_parent_never_ends:
  "\<not> less_d (mult_d (Num (1 / 2)) (hermiteLength ex_parent))
       (Num (hermiteLength (ex_child (0, 1 / 2) 0 0 2 1)))
   \<and> less_d (mult_d (Num (1 / 2)) (hermiteLength ex_parent))
       (Num (hermiteLength (ex_child (1 / 2, 1) 0 1 1 4)))
   \<and> recurse L3 (ex_env 0) (Num (1 / 2)) n ex_parent ([], []) (Num 0) = None"
proof (cases n)
  case 0
  then show ?thesis by (simp add: ex_lengths)
next
  case (Suc k)
  have "recurse L3 (ex_env 0) (Num (1 / 2)) k (ex_child (0, 1 / 2) 0 0 2 1)
          ([], [ex_parent]) (Num 0) = None"
    by (rule recurse_still_never_ends) (simp_all add: ex_child_def ex_hermite_def set_v0_def set_v1_def)
  with Suc show ?thesis
    by (simp add: ex_lengths bisect_ex_L3 Let_def)
qed

subsection \<open>The acceptance threshold\<close>

lemma project_thr_M:
  "l \<noteq> L2 \<Longrightarrow> rh_M rh \<noteq> 0 \<Longrightarrow> project_thr l rh cp = Num (2 * errorThreshold cp / rh_M rh)"
  by (cases l) (simp_all add: project_thr_def div_d_def)

lemma project_thr_L2: "project_thr L2 rh cp = Num (errorThreshold cp)"
  by (simp add: project_thr_def div_d_def)

lemma project_thr_M_zero:
  "l \<noteq> L2 \<Longrightarrow> rh_M rh = 0 \<Longrightarrow> 0 < errorThreshold cp \<Longrightarrow> project_thr l rh cp = PInf"
  by (cases l) (simp_all add: project_thr_def div_d_def)

text \<open>
  On a Hermite path that passes the checks of \<open>project\<close> and is not accepted as it is,
  the threshold handed to \<open>recurse\<close> is the quotient \<open>2 * errorThreshold / M\<close> in listings
  \<open>L1\<close> and \<open>L3\<close> and \<open>2 * errorThreshold / 2\<close> in listing \<open>L2\<close>.
\<close>

lemma project_Hermite_recurse:
  assumes "constraints h = Some cs" and "isSatisfied cs (end_q h)"
    and "configProjector cs = Some cp" and "dimension cp \<noteq> 0"
    and "\<not> less_d (Num (computeHermiteLength E h)) (project_thr l rh cp)"
  shows "project l E rh fuel (Hermite h) proj =
    project_finish E (Hermite h)
      (case recurse l E (rh_beta rh) fuel (doComputeHermiteLength E h) ([], [])
              (case l of L2 \<Rightarrow> div_d (2 * errorThreshold cp) 2
               | _ \<Rightarrow> div_d (2 * errorThreshold cp) (rh_M rh)) of
         None \<Rightarrow> None
       | Some (Inl e) \<Rightarrow> Some (Inl e)
       | Some (Inr (success, r, calls)) \<Rightarrow> Some (Inr (success, r)))"
  using assms
  by (auto simp add: project_def hermite_pieces_def doComputeHermiteLength_def project_thr_def
      split: option.splits sum.splits listing.splits)

text \<open>
  C1. The claim: the threshold passed to \<open>recurse\<close> is \<open>2 * errorThreshold / M\<close>. Listing
  \<open>L2\<close> (line 444) divides by the literal 2 instead of \<open>M_\<close>. With \<open>M = 4\<close> and
  \<open>errorThreshold = 1\<close> its threshold is 1 where the claim gives \<open>1/2\<close>; on the Hermite
  path from 0 to \<open>3/4\<close>, of length \<open>3/4\<close>, \<open>L2\<close> accepts the path as one piece, while
  \<open>L3\<close>, the same code with \<open>M_\<close>, bisects it into two pieces of length \<open>3/8\<close>.
\<close>

theorem project_L2_threshold:
  "project_thr L2 ex_rh \<lparr>dimension = 1, errorThreshold = 1\<rparr> = Num 1
   \<and> 2 * errorThreshold \<lparr>dimension = 1, errorThreshold = 1\<rparr> / rh_M ex_rh = 1 / 2
   \<and> project L2 (ex_env (1 / 2)) ex_rh 5 (Hermite (ex_hermite (0, 1) 0 (3 / 4))) None
       = Some (Inr (True,
           Some (PathVector [Hermite ((ex_hermite (0, 1) 0 (3 / 4))\<lparr>hermiteLength := 3 / 4\<rparr>)])))
   \<and> (\<exists>left right.
         project L3 (ex_env (1 / 2)) ex_rh 5 (Hermite (ex_hermite (0, 1) 0 (3 / 4))) None
           = Some (Inr (True, Some (PathVector [Hermite left, Hermite right])))
         \<and> hermiteLength left = 3 / 8 \<and> hermiteLength right = 3 / 8)"
  by (simp add: project_thr_def div_d_def project_def project_finish_def hermite_pieces_def
      doComputeHermiteLength_def bisect_def set_v0_def set_v1_def length_path_def
      ex_rh_def ex_env_def ex_hermite_def ex_cs_def eval_nat_numeral Let_def v0_def v1_def)

subsection \<open>The result of \<open>impl_apply\<close>\<close>

text \<open>
  When the end configuration of a constrained path does not satisfy the constraints,
  \<open>project\<close> returns false before it writes to \<open>proj\<close>, and \<open>impl_apply\<close> returns what the
  caller passed.
\<close>

lemma impl_apply_unsatisfied_end:
  assumes "constraints_of path = Some cs" and "configProjector cs = Some cp"
    and "final path = Some q2" and "\<not> isSatisfied cs q2"
  shows "impl_apply l E rh fuel path proj =
    (if l = L2 then
       (case proj of None \<Rightarrow> Some (Inl Null_dereference)
        | Some p \<Rightarrow> (case checkPath p of Inl e \<Rightarrow> Some (Inl e) | Inr u \<Rightarrow> Some (Inr (False, proj))))
     else Some (Inr (False, proj)))"
  using assms
  by (cases path; cases l)
     (auto simp add: apply_single_def finish_apply_def project_def split: option.splits sum.splits)

text \<open>
  C10. The claim (the assertions of lines 106--108): \<open>impl_apply\<close> always produces a
  non-null result whose initial configuration is that of the input, and whose end
  configuration is that of the input when it reports success. On the Hermite path from 0
  to 2, whose end does not satisfy the constraints, called with a null \<open>proj\<close>: listings
  \<open>L1\<close> and \<open>L3\<close> return false and leave \<open>proj\<close> null, listing \<open>L2\<close> dereferences the null
  pointer; and on the path vector holding that one path the result is an empty path
  vector, which has no initial configuration.
\<close>

theorem impl_apply_null_result:
  "impl_apply L1 (ex_env (1 / 2)) ex_rh 5 (Hermite (ex_hermite (0, 1) 0 2)) None
     = Some (Inr (False, None))
   \<and> impl_apply L3 (ex_env (1 / 2)) ex_rh 5 (Hermite (ex_hermite (0, 1) 0 2)) None
     = Some (Inr (False, None))
   \<and> impl_apply L2 (ex_env (1 / 2)) ex_rh 5 (Hermite (ex_hermite (0, 1) 0 2)) None
     = Some (Inl Null_dereference)
   \<and> impl_apply L1 (ex_env (1 / 2)) ex_rh 5 (PathVector [Hermite (ex_hermite (0, 1) 0 2)]) None
     = Some (Inr (False, Some (PathVector [])))
   \<and> initial (PathVector [] :: (real, real) any_path) = None"
  by (simp add: apply_single_def finish_apply_def project_def ex_hermite_def ex_cs_def)

end
